theory Spec2Isabelle
  imports Complex_Main "HOL-Library.Word" "HOL-Library.Multiset"
begin

section \<open>Numbers\<close>

text \<open>
  The C++ type \<^verbatim>\<open>double\<close>, the binary64 format of IEEE 754. A finite value is a real
  (\<open>Fin 0\<close> is the zero of positive sign, \<open>NegZero\<close> the one of negative sign); the two
  infinities and NaN are values of their own. The doubles among the finite values are
  those that \<open>roundToDouble\<close> leaves as they are; the operations and the literals yield
  doubles only.
\<close>

datatype double = Fin real | NegZero | PInf | NInf | NaN

text \<open>The real a finite double stands for, and the sign bit.\<close>

fun val :: "double \<Rightarrow> real" where
  "val (Fin a) = a"
| "val NegZero = 0"
| "val PInf = 0"
| "val NInf = 0"
| "val NaN = 0"

fun signbit :: "double \<Rightarrow> bool" where
  "signbit (Fin a) = (a < 0)"
| "signbit NegZero = True"
| "signbit PInf = False"
| "signbit NInf = True"
| "signbit NaN = False"

definition isInf :: "double \<Rightarrow> bool" where
  "isInf a = (a = PInf \<or> a = NInf)"

definition isZeroDouble :: "double \<Rightarrow> bool" where
  "isZeroDouble a = (a = Fin 0 \<or> a = NegZero)"

definition signedInf :: "bool \<Rightarrow> double" where
  "signedInf negative = (if negative then NInf else PInf)"

definition signedZero :: "bool \<Rightarrow> double" where
  "signedZero negative = (if negative then NegZero else Fin 0)"

subsection \<open>Rounding\<close>

text \<open>The number of binary digits of a positive integer, 0 for the others.\<close>

function bitLength :: "int \<Rightarrow> int" where
  "bitLength n = (if n \<le> 0 then 0 else bitLength (n div 2) + 1)"
  by pat_completeness auto
termination
  by (relation "measure nat") auto

definition pow2 :: "int \<Rightarrow> real" where
  "pow2 k = (if 0 \<le> k then 2 ^ nat k else 1 / 2 ^ nat (- k))"

text \<open>The binary exponent of a positive real \<open>x\<close>: the \<open>e\<close> with \<open>2\<^sup>e \<le> x < 2\<^sup>e\<^sup>+\<^sup>1\<close>.\<close>

definition exponentOf :: "real \<Rightarrow> int" where
  "exponentOf x =
     (if 1 \<le> x then bitLength \<lfloor>x\<rfloor> - 1 else - bitLength (\<lceil>1 / x\<rceil> - 1))"

text \<open>The nearest integer, the even one of the two when they are equally near.\<close>

definition roundHalfEven :: "real \<Rightarrow> int" where
  "roundHalfEven q =
     (let f = \<lfloor>q\<rfloor>; d = q - of_int f in
      if d < 1 / 2 then f else if 1 / 2 < d then f + 1 else if even f then f else f + 1)"

text \<open>\<^verbatim>\<open>std::numeric_limits<double>::max()\<close>, the largest finite double.\<close>

definition DBL_MAX :: real where
  "DBL_MAX = (2 - 1 / 2 ^ 52) * 2 ^ 1023"

text \<open>
  Rounding to nearest, ties to even, the rounding of every operation below: a real is
  rounded to 53 binary digits, to a multiple of \<open>2\<^sup>-\<^sup>1\<^sup>0\<^sup>7\<^sup>4\<close> below \<open>2\<^sup>-\<^sup>1\<^sup>0\<^sup>2\<^sup>2\<close> (the subnormal
  numbers), and to an infinity when the rounded value is beyond the largest double. A
  result that rounds to zero keeps the sign of the real.
\<close>

definition roundToDouble :: "real \<Rightarrow> double" where
  "roundToDouble x =
     (if x = 0 then Fin 0
      else
        let ulp = pow2 (max (exponentOf \<bar>x\<bar>) (- 1022) - 52);
            m = of_int (roundHalfEven (\<bar>x\<bar> / ulp)) * ulp
        in if DBL_MAX < m then signedInf (x < 0)
           else if m = 0 then signedZero (x < 0)
           else Fin (if x < 0 then - m else m))"

text \<open>A decimal literal of the source: the double nearest to it.\<close>

definition lit :: "real \<Rightarrow> double" where
  "lit x = roundToDouble x"

subsection \<open>Operations\<close>

text \<open>
  The operations of IEEE 754 on doubles: the exact result, rounded. An operation on a
  NaN is a NaN, as are \<open>\<infinity> - \<infinity>\<close>, \<open>0 * \<infinity>\<close>, \<open>0 / 0\<close> and \<open>\<infinity> / \<infinity>\<close>; a nonzero finite
  value divided by a zero is an infinity; the sign of a product or a quotient is the
  exclusive or of the signs; a sum that is exactly zero is \<open>+0\<close> unless both terms are
  \<open>-0\<close>. Every ordered comparison with a NaN is false, and the two zeros compare equal.
\<close>

instantiation double :: "{zero, one, plus, minus, uminus, times, inverse, abs, ord}"
begin

definition zero_double :: double where
  "zero_double = Fin 0"

definition one_double :: double where
  "one_double = Fin 1"

fun uminus_double :: "double \<Rightarrow> double" where
  "uminus_double (Fin a) = (if a = 0 then NegZero else Fin (- a))"
| "uminus_double NegZero = Fin 0"
| "uminus_double PInf = NInf"
| "uminus_double NInf = PInf"
| "uminus_double NaN = NaN"

fun plus_double :: "double \<Rightarrow> double \<Rightarrow> double" where
  "plus_double NaN _ = NaN"
| "plus_double _ NaN = NaN"
| "plus_double PInf NInf = NaN"
| "plus_double NInf PInf = NaN"
| "plus_double PInf _ = PInf"
| "plus_double _ PInf = PInf"
| "plus_double NInf _ = NInf"
| "plus_double _ NInf = NInf"
| "plus_double NegZero NegZero = NegZero"
| "plus_double a b = roundToDouble (val a + val b)"

definition minus_double :: "double \<Rightarrow> double \<Rightarrow> double" where
  "minus_double a b = (a::double) + (- b)"

definition times_double :: "double \<Rightarrow> double \<Rightarrow> double" where
  "times_double a b =
     (if a = NaN \<or> b = NaN then NaN
      else if isInf a \<or> isInf b
      then (if isZeroDouble a \<or> isZeroDouble b then NaN else signedInf (signbit a \<noteq> signbit b))
      else if val a = 0 \<or> val b = 0 then signedZero (signbit a \<noteq> signbit b)
      else roundToDouble (val a * val b))"

definition divide_double :: "double \<Rightarrow> double \<Rightarrow> double" where
  "divide_double a b =
     (if a = NaN \<or> b = NaN then NaN
      else if isInf a then (if isInf b then NaN else signedInf (signbit a \<noteq> signbit b))
      else if isInf b then signedZero (signbit a \<noteq> signbit b)
      else if val b = 0 then (if val a = 0 then NaN else signedInf (signbit a \<noteq> signbit b))
      else if val a = 0 then signedZero (signbit a \<noteq> signbit b)
      else roundToDouble (val a / val b))"

definition inverse_double :: "double \<Rightarrow> double" where
  "inverse_double a = Fin 1 div (a::double)"

fun abs_double :: "double \<Rightarrow> double" where
  "abs_double (Fin a) = Fin \<bar>a\<bar>"
| "abs_double NegZero = Fin 0"
| "abs_double PInf = PInf"
| "abs_double NInf = PInf"
| "abs_double NaN = NaN"

fun less_double :: "double \<Rightarrow> double \<Rightarrow> bool" where
  "less_double NaN _ = False"
| "less_double _ NaN = False"
| "less_double _ NInf = False"
| "less_double PInf _ = False"
| "less_double NInf _ = True"
| "less_double _ PInf = True"
| "less_double a b = (val a < val b)"

fun less_eq_double :: "double \<Rightarrow> double \<Rightarrow> bool" where
  "less_eq_double NaN _ = False"
| "less_eq_double _ NaN = False"
| "less_eq_double NInf _ = True"
| "less_eq_double _ PInf = True"
| "less_eq_double _ NInf = False"
| "less_eq_double PInf _ = False"
| "less_eq_double a b = (val a \<le> val b)"

instance ..

end

text \<open>The operator \<^verbatim>\<open>==\<close> on doubles: a NaN is equal to nothing, itself included.\<close>

definition deq :: "double \<Rightarrow> double \<Rightarrow> bool" where
  "deq a b = (a \<noteq> NaN \<and> b \<noteq> NaN \<and> (a = b \<or> isZeroDouble a \<and> isZeroDouble b))"

text \<open>\<^verbatim>\<open>std::min<double>(a, b)\<close> is \<^verbatim>\<open>(b < a) ? b : a\<close>.\<close>

definition std_min :: "double \<Rightarrow> double \<Rightarrow> double" where
  "std_min a b = (if b < a then b else a)"

text \<open>\<^verbatim>\<open>std::sqrt\<close>: the square root, rounded.\<close>

fun dsqrt :: "double \<Rightarrow> double" where
  "dsqrt (Fin a) = (if a < 0 then NaN else roundToDouble (sqrt a))"
| "dsqrt NegZero = NegZero"
| "dsqrt PInf = PInf"
| "dsqrt NInf = NaN"
| "dsqrt NaN = NaN"

text \<open>A double is a time of the interval of a step when it lies in \<open>[0, 1]\<close>.\<close>

definition inUnitInterval :: "double \<Rightarrow> bool" where
  "inUnitInterval t = (Fin 0 \<le> t \<and> t \<le> Fin 1)"

section \<open>Vectors, locations and contacts\<close>

text \<open>\<^verbatim>\<open>Math::Vector3d\<close> with the operations of Eigen the code uses.\<close>

type_synonym Vector3d = "double \<times> double \<times> double"

definition Vector3d_Zero :: Vector3d where
  "Vector3d_Zero = (Fin 0, Fin 0, Fin 0)"

text \<open>
  \<^verbatim>\<open>DataStructures::IndexedLocalCoordinate\<close>: an index (of a triangle, an element or a
  node) and the barycentric coordinates, a vector of dynamic size.
\<close>

record IndexedLocalCoordinate =
  index :: nat
  coordinate :: "double list"

text \<open>
  \<^verbatim>\<open>DataStructures::Location\<close>: each field is an optional value, empty in a
  default-constructed location.
\<close>

record Location =
  rigidLocalPosition :: "Vector3d option"
  triangleMeshLocalCoordinate :: "IndexedLocalCoordinate option"
  elementMeshLocalCoordinate :: "IndexedLocalCoordinate option"

definition emptyLocation :: Location where
  "emptyLocation = \<lparr>rigidLocalPosition = None, triangleMeshLocalCoordinate = None,
     elementMeshLocalCoordinate = None\<rparr>"

datatype CollisionDetectionType =
  COLLISION_DETECTION_TYPE_NONE
| COLLISION_DETECTION_TYPE_DISCRETE
| COLLISION_DETECTION_TYPE_CONTINUOUS

text \<open>
  \<^verbatim>\<open>Collision::Contact\<close>, with the fields in the order of the arguments of its
  constructor: type, depth, time, contact point, normal, penetration points.
\<close>

record Contact =
  ctype :: CollisionDetectionType
  depth :: double
  time :: double
  contactPoint :: Vector3d
  normal :: Vector3d
  penetrationPoints :: "Location \<times> Location"

text \<open>
  \<^verbatim>\<open>Collision::CollisionPair\<close>, as far as the loop reads it: the detection type of the
  pair and its list of contacts.
\<close>

record CollisionPair =
  pairType :: CollisionDetectionType
  contacts :: "Contact list"

section \<open>The earliest-impact filter\<close>

text \<open>
  \<^verbatim>\<open>CcdCollisionLoop::filterContacts(ccdPairs, epsilon, currentToi)\<close>. The pairs are
  mutated in place and the time of impact is written through the pointer
  \<^verbatim>\<open>currentToi\<close>: the model takes the pairs and the value behind the pointer and returns
  the value of the function, the pairs and the value behind the pointer as they are on
  return. The pointer is never null here, so the assertion on it is not a branch.
\<close>

text \<open>Lines 124 to 134: the earliest time of impact, starting from the largest double.\<close>

definition earliestContactTime :: "CollisionPair list \<Rightarrow> double" where
  "earliestContactTime ccdPairs =
     foldl (\<lambda>toi pair. foldl (\<lambda>toi contact. std_min toi (time contact)) toi (contacts pair))
       (Fin DBL_MAX) ccdPairs"

text \<open>Lines 144 to 150: \<^verbatim>\<open>remove_if\<close> of the contacts later than \<open>toi\<close> on every pair.\<close>

definition removeLaterContacts :: "double \<Rightarrow> CollisionPair list \<Rightarrow> CollisionPair list" where
  "removeLaterContacts toi ccdPairs =
     map (\<lambda>pair. pair\<lparr>contacts := filter (\<lambda>contact. \<not> (time contact > toi)) (contacts pair)\<rparr>)
       ccdPairs"

definition filterContacts ::
  "CollisionPair list \<Rightarrow> double \<Rightarrow> double \<Rightarrow> bool \<times> CollisionPair list \<times> double" where
  "filterContacts ccdPairs epsilon currentToi =
     (let toi = earliestContactTime ccdPairs in
      if \<not> (toi < Fin DBL_MAX) then (False, ccdPairs, currentToi)
      else
        let toi = toi + epsilon in
        (True, removeLaterContacts toi ccdPairs, toi))"

text \<open>All the contacts of the pairs, in the order of the pairs.\<close>

definition allContacts :: "CollisionPair list \<Rightarrow> Contact list" where
  "allContacts ccdPairs = concat (map contacts ccdPairs)"

section \<open>The CCD stepping loop\<close>

text \<open>
  \<^verbatim>\<open>CcdCollisionLoop::doUpdate\<close>. The six computations the loop owns
  (\<^verbatim>\<open>m_updateCcdData\<close>, \<^verbatim>\<open>m_ccdCollision\<close>, \<^verbatim>\<open>m_constraintGeneration\<close>,
  \<^verbatim>\<open>m_buildMlcp\<close>, \<^verbatim>\<open>m_solveMlcp\<close>, \<^verbatim>\<open>m_pushResults\<close>) are not part of the loop:
  they are parameters. Each takes a time and the state and returns the state. The pair
  objects are shared between the state and the local vector \<^verbatim>\<open>ccdPairs\<close>, so a
  computation reads and writes the contacts the loop filters: the model passes the objects
  \<^verbatim>\<open>ccdPairs\<close> points to together with the rest of the state, of any type \<open>'s\<close>.
\<close>

type_synonym 's World = "CollisionPair list \<times> 's"

record 's Computations =
  updateCcdData :: "double \<Rightarrow> 's World \<Rightarrow> 's World"
  ccdCollision :: "double \<Rightarrow> 's World \<Rightarrow> 's World"
  constraintGeneration :: "double \<Rightarrow> 's World \<Rightarrow> 's World"
  buildMlcp :: "double \<Rightarrow> 's World \<Rightarrow> 's World"
  solveMlcp :: "double \<Rightarrow> 's World \<Rightarrow> 's World"
  pushResults :: "double \<Rightarrow> 's World \<Rightarrow> 's World"

text \<open>
  What the loop does, in order: one event for each call of a computation, of
  \<^verbatim>\<open>filterContacts\<close> (with the epsilon it is given and the value it returns) and of
  \<^verbatim>\<open>clearContacts\<close>, and one for the warning of line 112.
\<close>

datatype Event =
  UpdateCcdData double
| CcdCollision
| FilterContacts double bool
| ConstraintGeneration
| BuildMlcp
| SolveMlcp
| PushResults
| ClearContacts
| MaxedOutWarning

text \<open>The variables of \<^verbatim>\<open>doUpdate\<close> that change in the loop, and the events so far.\<close>

record 's LoopVars =
  toi :: double
  localToi :: double
  ccdPairs :: "CollisionPair list"
  lastState :: 's
  events :: "Event list"

type_synonym size_t = "64 word"

text \<open>Lines 172 to 178.\<close>

definition clearContacts :: "CollisionPair list \<Rightarrow> CollisionPair list" where
  "clearContacts ps = map (\<lambda>pair. pair\<lparr>contacts := []\<rparr>) ps"

text \<open>Line 82: the accumulated time of impact.\<close>

definition accumulateToi :: "double \<Rightarrow> double \<Rightarrow> double" where
  "accumulateToi t lt = t + (1 - t) * lt"

text \<open>Line 83.\<close>

definition epsilonOf :: "double \<Rightarrow> double \<Rightarrow> double" where
  "epsilonOf t epsilonFactor = 1 / ((1 - t) * epsilonFactor)"

text \<open>
  Lines 99 to 109, the part of an iteration after the filter has found contacts: the
  four computations, \<^verbatim>\<open>clearContacts\<close> and the test on \<^verbatim>\<open>toi\<close>. The Boolean is true
  when the iteration leaves the loop by \<^verbatim>\<open>break\<close>.
\<close>

definition resolveContacts :: "'s Computations \<Rightarrow> double \<Rightarrow> 's LoopVars \<Rightarrow> bool \<times> 's LoopVars" where
  "resolveContacts cs dt v =
     (let w = constraintGeneration cs dt (ccdPairs v, lastState v);
          w = buildMlcp cs dt w;
          w = solveMlcp cs dt w;
          w = pushResults cs dt w;
          v = v\<lparr>ccdPairs := clearContacts (fst w), lastState := snd w,
                events := events v @ [ConstraintGeneration, BuildMlcp, SolveMlcp, PushResults,
                  ClearContacts]\<rparr>
      in (toi v > 1, v))"

text \<open>Lines 82 to 109, one iteration of the loop.\<close>

definition loopBody ::
  "'s Computations \<Rightarrow> double \<Rightarrow> double \<Rightarrow> 's LoopVars \<Rightarrow> bool \<times> 's LoopVars" where
  "loopBody cs epsilonFactor dt v =
     (let t = accumulateToi (toi v) (localToi v);
          epsilon = epsilonOf t epsilonFactor;
          w = updateCcdData cs (localToi v) (ccdPairs v, lastState v);
          w = ccdCollision cs dt w;
          (found, ps, lt) = filterContacts (fst w) epsilon (localToi v);
          v = v\<lparr>toi := t, localToi := lt, ccdPairs := ps, lastState := snd w,
                events := events v @ [UpdateCcdData (localToi v), CcdCollision,
                  FilterContacts epsilon found]\<rparr>
      in if \<not> found then (True, v) else resolveContacts cs dt v)"

text \<open>
  Lines 80 to 110: \<^verbatim>\<open>while (--iterations > 0)\<close> on the unsigned counter. The result
  is the counter and the variables when the loop is left.
\<close>

function ccdLoop ::
  "'s Computations \<Rightarrow> double \<Rightarrow> double \<Rightarrow> size_t \<Rightarrow> 's LoopVars \<Rightarrow> size_t \<times> 's LoopVars" where
  "ccdLoop cs epsilonFactor dt iterations v =
     (if iterations - 1 > 0 then
        (case loopBody cs epsilonFactor dt v of
           (stop, v') \<Rightarrow>
             if stop then (iterations - 1, v')
             else ccdLoop cs epsilonFactor dt (iterations - 1) v')
      else (iterations - 1, v))"
  by pat_completeness auto
termination
proof (relation "measure (\<lambda>(cs, epsilonFactor, dt, iterations, v). unat (iterations - 1))")
  show "wf (measure (\<lambda>(cs :: 's Computations, epsilonFactor :: double, dt :: double,
      iterations :: size_t, v :: 's LoopVars). unat (iterations - 1)))"
    by simp
next
  fix cs :: "'s Computations" and epsilonFactor dt :: double and iterations :: size_t
    and v v' :: "'s LoopVars"
  assume "0 < iterations - 1"
  then have nz: "iterations - 1 \<noteq> 0"
    by auto
  then have "0 < unat (iterations - 1)"
    by (simp only: unat_gt_0 not_False_eq_True)
  with unat_minus_one [OF nz] have "unat (iterations - 1 - 1) < unat (iterations - 1)"
    by linarith
  then show "((cs, epsilonFactor, dt, iterations - 1, v'),
              cs, epsilonFactor, dt, iterations, v)
             \<in> measure (\<lambda>(cs, epsilonFactor, dt, iterations, v). unat (iterations - 1))"
    by simp
qed

text \<open>
  \<^verbatim>\<open>doUpdate\<close> with its members \<^verbatim>\<open>m_maxIterations\<close> and \<^verbatim>\<open>m_epsilonFactor\<close>:
  the pairs of the continuous type are selected (lines 61 to 73), the loop runs from
  \<^verbatim>\<open>toi = localToi = 0.0\<close>, and the warning is logged when the counter is zero (line
  112). The result holds the returned state, the pair objects and the events. The
  printing of the contacts at the debug level (lines 88 to 91) changes nothing and is
  left out, as is \<^verbatim>\<open>localDt\<close>, which is never read.
\<close>

definition selectCcdPairs :: "CollisionPair list \<Rightarrow> CollisionPair list" where
  "selectCcdPairs collisionPairs =
     filter (\<lambda>p. pairType p = COLLISION_DETECTION_TYPE_CONTINUOUS) collisionPairs"

text \<open>Lines 58 to 78: the variables before the loop.\<close>

definition initialVars :: "CollisionPair list \<Rightarrow> 's \<Rightarrow> 's LoopVars" where
  "initialVars collisionPairs state =
     \<lparr>toi = Fin 0, localToi = Fin 0, ccdPairs = selectCcdPairs collisionPairs,
      lastState = state, events = []\<rparr>"

definition doUpdate ::
  "'s Computations \<Rightarrow> size_t \<Rightarrow> double \<Rightarrow> double \<Rightarrow> CollisionPair list \<Rightarrow> 's \<Rightarrow> 's LoopVars" where
  "doUpdate cs maxIterations epsilonFactor dt collisionPairs state =
     (let (iterations, v) =
            ccdLoop cs epsilonFactor dt maxIterations (initialVars collisionPairs state)
      in if iterations = 0 then v\<lparr>events := events v @ [MaxedOutWarning]\<rparr> else v)"

text \<open>The number of iterations of the loop that were run: each calls the detection once.\<close>

definition iterationsRun :: "Event list \<Rightarrow> nat" where
  "iterationsRun es = length (filter (\<lambda>e. e = CcdCollision) es)"

text \<open>An event of the filter reporting no impact.\<close>

fun isNoImpact :: "Event \<Rightarrow> bool" where
  "isNoImpact (FilterContacts epsilon found) = (\<not> found)"
| "isNoImpact _ = False"

subsection \<open>Inputs of the loop used in the examples\<close>

text \<open>
  A continuous contact as the unit test of the filter adds it,
  \<^verbatim>\<open>addCcdContact(0.0, t, Vector3d::Zero(), Vector3d::Zero(), (location, location))\<close>, and
  a pair of the continuous type with given contacts.
\<close>

definition ccdContact :: "double \<Rightarrow> Contact" where
  "ccdContact t =
     \<lparr>ctype = COLLISION_DETECTION_TYPE_CONTINUOUS, depth = Fin 0, time = t,
      contactPoint = Vector3d_Zero, normal = Vector3d_Zero,
      penetrationPoints = (emptyLocation, emptyLocation)\<rparr>"

definition ccdPair :: "Contact list \<Rightarrow> CollisionPair" where
  "ccdPair cs = \<lparr>pairType = COLLISION_DETECTION_TYPE_CONTINUOUS, contacts = cs\<rparr>"

text \<open>
  Computations on a state without content: the detection adds a contact at each of the
  given times to every pair, the other computations change nothing.
\<close>

definition detectsContacts :: "double list \<Rightarrow> unit Computations" where
  "detectsContacts ts =
     \<lparr>updateCcdData = (\<lambda>t w. w),
      ccdCollision = (\<lambda>dt (ps, s). (map (\<lambda>p. p\<lparr>contacts := contacts p @ map ccdContact ts\<rparr>) ps, s)),
      constraintGeneration = (\<lambda>t w. w), buildMlcp = (\<lambda>t w. w), solveMlcp = (\<lambda>t w. w),
      pushResults = (\<lambda>t w. w)\<rparr>"

text \<open>
  Computations on a state that is a list of times: the detection adds a contact at each of
  the given times to every pair, the constraint generation stores the times of the
  contacts it is given, the other computations change nothing.
\<close>

definition remembersContacts :: "double list \<Rightarrow> double list Computations" where
  "remembersContacts ts =
     \<lparr>updateCcdData = (\<lambda>t w. w),
      ccdCollision = (\<lambda>dt (ps, s). (map (\<lambda>p. p\<lparr>contacts := contacts p @ map ccdContact ts\<rparr>) ps, s)),
      constraintGeneration = (\<lambda>t (ps, s). (ps, map time (allContacts ps))),
      buildMlcp = (\<lambda>t w. w), solveMlcp = (\<lambda>t w. w), pushResults = (\<lambda>t w. w)\<rparr>"

section \<open>Triangle meshes\<close>

subsection \<open>Vectors and rigid transforms of Eigen\<close>

fun vadd :: "Vector3d \<Rightarrow> Vector3d \<Rightarrow> Vector3d" where
  "vadd (ax, ay, az) (bx, by, bz) = (ax + bx, ay + by, az + bz)"

fun vsub :: "Vector3d \<Rightarrow> Vector3d \<Rightarrow> Vector3d" where
  "vsub (ax, ay, az) (bx, by, bz) = (ax - bx, ay - by, az - bz)"

fun vneg :: "Vector3d \<Rightarrow> Vector3d" where
  "vneg (ax, ay, az) = (- ax, - ay, - az)"

fun smul :: "double \<Rightarrow> Vector3d \<Rightarrow> Vector3d" where
  "smul s (ax, ay, az) = (s * ax, s * ay, s * az)"

fun sdiv :: "Vector3d \<Rightarrow> double \<Rightarrow> Vector3d" where
  "sdiv (ax, ay, az) s = (ax / s, ay / s, az / s)"

fun dot :: "Vector3d \<Rightarrow> Vector3d \<Rightarrow> double" where
  "dot (ax, ay, az) (bx, by, bz) = ax * bx + ay * by + az * bz"

fun cross :: "Vector3d \<Rightarrow> Vector3d \<Rightarrow> Vector3d" where
  "cross (ax, ay, az) (bx, by, bz) = (ay * bz - az * by, az * bx - ax * bz, ax * by - ay * bx)"

definition norm3 :: "Vector3d \<Rightarrow> double" where
  "norm3 a = dsqrt (dot a a)"

text \<open>
  \<^verbatim>\<open>normalized()\<close>, as Eigen 3.3 and later define it: the vector divided by its norm when
  the squared norm is positive, the vector itself otherwise. The three products of a dot
  product are summed from left to right.
\<close>

definition normalized :: "Vector3d \<Rightarrow> Vector3d" where
  "normalized a = (if dot a a > Fin 0 then sdiv a (dsqrt (dot a a)) else a)"

text \<open>
  \<^verbatim>\<open>isZero()\<close> with the default precision of Eigen for doubles: every coefficient is at
  most \<open>10\<^sup>-\<^sup>1\<^sup>2\<close> in absolute value.
\<close>

definition dummy_precision :: double where
  "dummy_precision = lit (1 / 10 ^ 12)"

fun isZero :: "Vector3d \<Rightarrow> bool" where
  "isZero (ax, ay, az) =
     (\<bar>ax\<bar> \<le> dummy_precision \<and> \<bar>ay\<bar> \<le> dummy_precision \<and> \<bar>az\<bar> \<le> dummy_precision)"

fun coefficients :: "Vector3d \<Rightarrow> double list" where
  "coefficients (ax, ay, az) = [ax, ay, az]"

text \<open>
  \<^verbatim>\<open>Math::RigidTransform3d\<close>, an isometry of Eigen: the rows of the rotation and the
  translation. The inverse of an isometry is the transposed rotation with the translation
  rotated back and negated.
\<close>

record RigidTransform3d =
  rotation :: "Vector3d \<times> Vector3d \<times> Vector3d"
  translation :: Vector3d

fun rotate :: "Vector3d \<times> Vector3d \<times> Vector3d \<Rightarrow> Vector3d \<Rightarrow> Vector3d" where
  "rotate (r0, r1, r2) v = (dot r0 v, dot r1 v, dot r2 v)"

fun transposed :: "Vector3d \<times> Vector3d \<times> Vector3d \<Rightarrow> Vector3d \<times> Vector3d \<times> Vector3d" where
  "transposed ((a, b, c), (d, e, f), (g, h, i)) = ((a, d, g), (b, e, h), (c, f, i))"

definition inverseTransform :: "RigidTransform3d \<Rightarrow> RigidTransform3d" where
  "inverseTransform p =
     \<lparr>rotation = transposed (rotation p),
      translation = vneg (rotate (transposed (rotation p)) (translation p))\<rparr>"

definition transformPoint :: "RigidTransform3d \<Rightarrow> Vector3d \<Rightarrow> Vector3d" where
  "transformPoint p v = vadd (rotate (rotation p) v) (translation p)"

definition identityTransform :: RigidTransform3d where
  "identityTransform =
     \<lparr>rotation = ((Fin 1, Fin 0, Fin 0), (Fin 0, Fin 1, Fin 0), (Fin 0, Fin 0, Fin 1)),
      translation = Vector3d_Zero\<rparr>"

text \<open>
  \<^verbatim>\<open>Math::Aabbd\<close>, the aligned box of Eigen: the minimal and the maximal corner. The
  empty box has the largest double in its minimal corner and its negation in the maximal
  one; \<^verbatim>\<open>extend\<close> takes the coefficient-wise minimum and maximum.
\<close>

type_synonym Aabbd = "Vector3d \<times> Vector3d"

definition std_max :: "double \<Rightarrow> double \<Rightarrow> double" where
  "std_max a b = (if a < b then b else a)"

definition emptyAabb :: Aabbd where
  "emptyAabb = ((Fin DBL_MAX, Fin DBL_MAX, Fin DBL_MAX),
                (Fin (- DBL_MAX), Fin (- DBL_MAX), Fin (- DBL_MAX)))"

fun extendAabb :: "Aabbd \<Rightarrow> Vector3d \<Rightarrow> Aabbd" where
  "extendAabb ((lx, ly, lz), (hx, hy, hz)) (px, py, pz) =
     ((std_min lx px, std_min ly py, std_min lz pz), (std_max hx px, std_max hy py, std_max hz pz))"

subsection \<open>Meshes\<close>

text \<open>
  \<^verbatim>\<open>Math::MeshShape\<close> is not among the sources; the calculators read it through
  \<^verbatim>\<open>getNumTriangles\<close>, \<^verbatim>\<open>getTriangle\<close>, \<^verbatim>\<open>getVertexPosition\<close>,
  \<^verbatim>\<open>getTrianglePositions\<close> and \<^verbatim>\<open>getNormal\<close>, modelled as reads of three arrays: the
  positions of the vertices, the triangles (three vertex indices and a validity flag) and
  the cached normal of each triangle. A read out of the bounds of an array, which the
  containers do not check, is the failure \<open>OutOfRange\<close> here.
\<close>

record Triangle =
  verticesId :: "nat \<times> nat \<times> nat"
  isValid :: bool

record MeshShape =
  vertexPositions :: "Vector3d list"
  triangles :: "Triangle list"
  normals :: "Vector3d list"

datatype Failure = AssertionFailure | OutOfRange

datatype Warning = DegenerateTriangleWarning | BarycentricCoordinateWarning

definition readAt :: "'a list \<Rightarrow> nat \<Rightarrow> Failure + 'a" where
  "readAt xs i = (if i < length xs then Inr (xs ! i) else Inl OutOfRange)"

definition getNumTriangles :: "MeshShape \<Rightarrow> nat" where
  "getNumTriangles m = length (triangles m)"

definition getTriangle :: "MeshShape \<Rightarrow> nat \<Rightarrow> Failure + Triangle" where
  "getTriangle m i = readAt (triangles m) i"

definition getVertexPosition :: "MeshShape \<Rightarrow> nat \<Rightarrow> Failure + Vector3d" where
  "getVertexPosition m i = readAt (vertexPositions m) i"

definition getNormal :: "MeshShape \<Rightarrow> nat \<Rightarrow> Failure + Vector3d" where
  "getNormal m i = readAt (normals m) i"

definition getTrianglePositions :: "MeshShape \<Rightarrow> nat \<Rightarrow> Failure + Vector3d \<times> Vector3d \<times> Vector3d" where
  "getTrianglePositions m i =
     (case getTriangle m i of
        Inl e \<Rightarrow> Inl e
      | Inr t \<Rightarrow>
          (case verticesId t of
             (i0, i1, i2) \<Rightarrow>
               (case getVertexPosition m i0 of
                  Inl e \<Rightarrow> Inl e
                | Inr v0 \<Rightarrow>
                    (case getVertexPosition m i1 of
                       Inl e \<Rightarrow> Inl e
                     | Inr v1 \<Rightarrow>
                         (case getVertexPosition m i2 of
                            Inl e \<Rightarrow> Inl e
                          | Inr v2 \<Rightarrow> Inr (v0, v1, v2))))))"

subsection \<open>The geometric tests\<close>

text \<open>
  The functions of \<^verbatim>\<open>SurgSim/Math/Geometry.h\<close> and \<^verbatim>\<open>Aabb.h\<close> and the constant
  \<^verbatim>\<open>Geometry::DistanceEpsilon\<close> are not among the sources: they are parameters of the
  calculators. A test that returns a Boolean and writes through pointers is a function to
  an option (the written values when it returns true) or, where the code reads the
  written values whatever is returned, to the Boolean and the values.
\<close>

type_synonym Motion = "Vector3d \<times> Vector3d"

record Geometry =
  DistanceEpsilon :: double
  doAabbIntersect :: "Aabbd \<Rightarrow> Aabbd \<Rightarrow> bool"
  calculateContactTriangleTriangle ::
    "Vector3d \<Rightarrow> Vector3d \<Rightarrow> Vector3d \<Rightarrow> Vector3d \<Rightarrow> Vector3d \<Rightarrow> Vector3d \<Rightarrow> Vector3d \<Rightarrow> Vector3d
      \<Rightarrow> (double \<times> Vector3d \<times> Vector3d \<times> Vector3d) option"
  barycentricCoordinatesWithNormal ::
    "Vector3d \<Rightarrow> Vector3d \<Rightarrow> Vector3d \<Rightarrow> Vector3d \<Rightarrow> Vector3d \<Rightarrow> bool \<times> Vector3d"
  barycentricCoordinates ::
    "Vector3d \<Rightarrow> Vector3d \<Rightarrow> Vector3d \<Rightarrow> Vector3d \<Rightarrow> bool \<times> Vector3d"
  distanceTriangleTriangle ::
    "Vector3d \<Rightarrow> Vector3d \<Rightarrow> Vector3d \<Rightarrow> Vector3d \<Rightarrow> Vector3d \<Rightarrow> Vector3d
      \<Rightarrow> double \<times> Vector3d \<times> Vector3d"
  calculateCcdContactSegmentSegment ::
    "Motion \<Rightarrow> Motion \<Rightarrow> Motion \<Rightarrow> Motion \<Rightarrow> (double \<times> double \<times> double) option"
  calculateCcdContactPointTriangle ::
    "Motion \<Rightarrow> Motion \<Rightarrow> Motion \<Rightarrow> Motion \<Rightarrow> (double \<times> double \<times> double) option"

text \<open>
  Modelled from the spec: the swept root finders \<^verbatim>\<open>calculateCcdContactSegmentSegment\<close>
  and \<^verbatim>\<open>calculateCcdContactPointTriangle\<close> "return the earliest \<open>t \<in> [0,1]\<close> and local
  parameters at which the primitives touch, or report no-root": every time they report
  lies in \<open>[0, 1]\<close>.
\<close>

definition reportsTimeInUnitInterval :: "(double \<times> double \<times> double) option \<Rightarrow> bool" where
  "reportsTimeInUnitInterval r = (case r of None \<Rightarrow> True | Some (t, a, b) \<Rightarrow> inUnitInterval t)"

definition rootsInUnitInterval :: "Geometry \<Rightarrow> bool" where
  "rootsInUnitInterval g =
     (\<forall>p0 p1 q0 q1.
        reportsTimeInUnitInterval (calculateCcdContactSegmentSegment g p0 p1 q0 q1)
        \<and> reportsTimeInUnitInterval (calculateCcdContactPointTriangle g p0 p1 q0 q1))"

text \<open>
  Modelled from the spec: the discrete triangle-triangle test "on success yields
  penetration depth", a number.
\<close>

definition depthIsNumber :: "Geometry \<Rightarrow> bool" where
  "depthIsNumber g =
     (\<forall>a0 a1 a2 b0 b1 b2 na nb.
        case calculateContactTriangleTriangle g a0 a1 a2 b0 b1 b2 na nb of
          None \<Rightarrow> True
        | Some (d, pa, pb, n) \<Rightarrow> d \<noteq> NaN)"

text \<open>
  Loops over a list that append contacts and log warnings: the elements are visited in
  order, and an assertion that fails in one of them (an exception in the code) ends the
  whole computation.
\<close>

fun collect ::
  "('a \<Rightarrow> Failure + Warning list \<times> Contact list) \<Rightarrow> 'a list \<Rightarrow> Failure + Warning list \<times> Contact list" where
  "collect f [] = Inr ([], [])"
| "collect f (x # xs) =
     (case f x of
        Inl e \<Rightarrow> Inl e
      | Inr (ws, cs) \<Rightarrow>
          (case collect f xs of
             Inl e \<Rightarrow> Inl e
           | Inr (ws', cs') \<Rightarrow> Inr (ws @ ws', cs @ cs')))"

section \<open>The mesh-mesh contact calculator\<close>

subsection \<open>Discrete detection\<close>

text \<open>
  \<^verbatim>\<open>TriangleMeshTriangleMeshContact::calculateDcdContact\<close>. The spatial join of the two
  trees and the triangles each pair of nodes holds (lines 148 to 164) are the work of the
  tree, which is not among the sources: \<open>intersectionList\<close> is the list of the two
  triangle lists, one pair for each pair of nodes. The assertions of lines 193 to 203
  are compiled only with \<^verbatim>\<open>SURGSIM_DEBUG_TRIANGLETRIANGLECONTACT\<close> and are left out.
\<close>

text \<open>Lines 176 to 224, the body of the loop over the triangles of the second mesh.\<close>

definition dcdTrianglePair ::
  "Geometry \<Rightarrow> MeshShape \<Rightarrow> RigidTransform3d \<Rightarrow> MeshShape \<Rightarrow> RigidTransform3d \<Rightarrow> nat \<Rightarrow> Vector3d
    \<Rightarrow> Vector3d \<times> Vector3d \<times> Vector3d \<Rightarrow> nat \<Rightarrow> Failure + Warning list \<times> Contact list" where
  "dcdTrianglePair g meshA meshAPose meshB meshBPose i normalA verticesA j =
     (case getNormal meshB j of
        Inl e \<Rightarrow> Inl e
      | Inr normalB \<Rightarrow>
          if isZero normalB then Inr ([], [])
          else
            (case getTrianglePositions meshB j of
               Inl e \<Rightarrow> Inl e
             | Inr verticesB \<Rightarrow>
                 (case (verticesA, verticesB) of
                    ((a0, a1, a2), (b0, b1, b2)) \<Rightarrow>
                      (case calculateContactTriangleTriangle g a0 a1 a2 b0 b1 b2 normalA normalB of
                         None \<Rightarrow> Inr ([], [])
                       | Some (d, penetrationPointA, penetrationPointB, n) \<Rightarrow>
                           Inr ([],
                             [\<lparr>ctype = COLLISION_DETECTION_TYPE_DISCRETE,
                               depth = \<bar>d\<bar>,
                               time = Fin 1,
                               contactPoint = Vector3d_Zero,
                               normal = n,
                               penetrationPoints =
                                 (\<lparr>rigidLocalPosition =
                                     Some (transformPoint (inverseTransform meshAPose) penetrationPointA),
                                   triangleMeshLocalCoordinate =
                                     Some \<lparr>index = i,
                                       coordinate = coefficients (snd (barycentricCoordinatesWithNormal g
                                         penetrationPointA a0 a1 a2 normalA))\<rparr>,
                                   elementMeshLocalCoordinate = None\<rparr>,
                                  \<lparr>rigidLocalPosition =
                                     Some (transformPoint (inverseTransform meshBPose) penetrationPointB),
                                   triangleMeshLocalCoordinate =
                                     Some \<lparr>index = j,
                                       coordinate = coefficients (snd (barycentricCoordinatesWithNormal g
                                         penetrationPointB b0 b1 b2 normalB))\<rparr>,
                                   elementMeshLocalCoordinate = None\<rparr>)\<rparr>])))))"

text \<open>Lines 166 to 225, the body of the loop over the triangles of the first mesh.\<close>

definition dcdTriangle ::
  "Geometry \<Rightarrow> MeshShape \<Rightarrow> RigidTransform3d \<Rightarrow> MeshShape \<Rightarrow> RigidTransform3d \<Rightarrow> nat list \<Rightarrow> nat
    \<Rightarrow> Failure + Warning list \<times> Contact list" where
  "dcdTriangle g meshA meshAPose meshB meshBPose triangleListB i =
     (case getNormal meshA i of
        Inl e \<Rightarrow> Inl e
      | Inr normalA \<Rightarrow>
          if isZero normalA then Inr ([], [])
          else
            (case getTrianglePositions meshA i of
               Inl e \<Rightarrow> Inl e
             | Inr verticesA \<Rightarrow>
                 collect (dcdTrianglePair g meshA meshAPose meshB meshBPose i normalA verticesA)
                   triangleListB))"

definition calculateDcdContact ::
  "Geometry \<Rightarrow> (nat list \<times> nat list) list \<Rightarrow> MeshShape \<Rightarrow> RigidTransform3d \<Rightarrow> MeshShape
    \<Rightarrow> RigidTransform3d \<Rightarrow> Failure + Warning list \<times> Contact list" where
  "calculateDcdContact g intersectionList meshA meshAPose meshB meshBPose =
     collect (\<lambda>(triangleListA, triangleListB).
        collect (dcdTriangle g meshA meshAPose meshB meshBPose triangleListB) triangleListA)
       intersectionList"

subsection \<open>Continuous detection\<close>

text \<open>
  The variables of lines 312 to 316 and 338 to 339 that the tests on a pair of triangles
  update: the earliest time of impact, the local coordinates of the contact in the two
  triangles and the two flags on the kind of the test that found it.
\<close>

record Candidate =
  earliestTimeOfImpact :: double
  triangle1Alpha :: double
  triangle1Beta :: double
  triangle2Alpha :: double
  triangle2Beta :: double
  segmentSegmentCcdFound :: bool
  t1VertexThroughT2 :: bool

definition noCandidate :: Candidate where
  "noCandidate =
     \<lparr>earliestTimeOfImpact = Fin DBL_MAX,
      triangle1Alpha = Fin (- 1), triangle1Beta = Fin (- 1),
      triangle2Alpha = Fin (- 1), triangle2Beta = Fin (- 1),
      segmentSegmentCcdFound = False, t1VertexThroughT2 = False\<rparr>"

text \<open>
  One swept test: \<^verbatim>\<open>if (test(..., &timeOfImpact, &a, &b)) { if (timeOfImpact <
  earliestTimeOfImpact) { ... } }\<close>, with the assignments of the inner block as a function
  of the three values the test wrote.
\<close>

type_synonym Assignments = "double \<Rightarrow> double \<Rightarrow> double \<Rightarrow> Candidate \<Rightarrow> Candidate"

definition considerTest :: "Candidate \<Rightarrow> (double \<times> double \<times> double) option \<times> Assignments \<Rightarrow> Candidate" where
  "considerTest c test =
     (case test of
        (None, assign) \<Rightarrow> c
      | (Some (timeOfImpact, a, b), assign) \<Rightarrow>
          if timeOfImpact < earliestTimeOfImpact c then assign timeOfImpact a b c else c)"

text \<open>The assignments of a segment/segment test, of the four coordinates it gives.\<close>

definition segmentSegmentFound :: "double \<Rightarrow> double \<Rightarrow> double \<Rightarrow> double \<Rightarrow> double \<Rightarrow> Candidate \<Rightarrow> Candidate" where
  "segmentSegmentFound timeOfImpact a1 b1 a2 b2 c =
     c\<lparr>segmentSegmentCcdFound := True, earliestTimeOfImpact := timeOfImpact,
       triangle1Alpha := a1, triangle1Beta := b1, triangle2Alpha := a2, triangle2Beta := b2\<rparr>"

text \<open>The assignments of a point/triangle test, with the value it gives the second flag.\<close>

definition pointTriangleFound ::
  "bool \<Rightarrow> double \<Rightarrow> double \<Rightarrow> double \<Rightarrow> double \<Rightarrow> double \<Rightarrow> Candidate \<Rightarrow> Candidate" where
  "pointTriangleFound through timeOfImpact a1 b1 a2 b2 c =
     c\<lparr>segmentSegmentCcdFound := False, t1VertexThroughT2 := through,
       earliestTimeOfImpact := timeOfImpact,
       triangle1Alpha := a1, triangle1Beta := b1, triangle2Alpha := a2, triangle2Beta := b2\<rparr>"

text \<open>The local coordinates of a candidate, in the two triangles.\<close>

definition coordinatesOf :: "Candidate \<Rightarrow> double \<times> double \<times> double \<times> double" where
  "coordinatesOf c = (triangle1Alpha c, triangle1Beta c, triangle2Alpha c, triangle2Beta c)"

text \<open>
  Assignments that set the time to the time of the test and the coordinates to values of
  what the test wrote alone.
\<close>

definition fromTestValues :: "Assignments \<Rightarrow> bool" where
  "fromTestValues assign =
     (\<forall>t a b c. earliestTimeOfImpact (assign t a b c) = t
        \<and> coordinatesOf (assign t a b c) = coordinatesOf (assign t a b noCandidate))"

text \<open>
  Lines 376 to 577: the nine segment/segment tests and the six point/triangle tests, in
  the order of the code, each with its assignments.
\<close>

definition sweptTests ::
  "Geometry \<Rightarrow> Motion \<Rightarrow> Motion \<Rightarrow> Motion \<Rightarrow> Motion \<Rightarrow> Motion \<Rightarrow> Motion
    \<Rightarrow> ((double \<times> double \<times> double) option \<times> Assignments) list" where
  "sweptTests g t1v0 t1v1 t1v2 t2v0 t2v1 t2v2 =
     [(calculateCcdContactSegmentSegment g t1v0 t1v1 t2v0 t2v1,
         \<lambda>t t1Factor t2Factor. segmentSegmentFound t t1Factor (Fin 0) t2Factor (Fin 0)),
      (calculateCcdContactSegmentSegment g t1v0 t1v1 t2v1 t2v2,
         \<lambda>t t1Factor t2Factor. segmentSegmentFound t t1Factor (Fin 0) (Fin 1 - t2Factor) t2Factor),
      (calculateCcdContactSegmentSegment g t1v0 t1v1 t2v2 t2v0,
         \<lambda>t t1Factor t2Factor. segmentSegmentFound t t1Factor (Fin 0) (Fin 0) (Fin 1 - t2Factor)),
      (calculateCcdContactSegmentSegment g t1v1 t1v2 t2v0 t2v1,
         \<lambda>t t1Factor t2Factor. segmentSegmentFound t (Fin 1 - t1Factor) t1Factor t2Factor (Fin 0)),
      (calculateCcdContactSegmentSegment g t1v1 t1v2 t2v1 t2v2,
         \<lambda>t t1Factor t2Factor.
            segmentSegmentFound t (Fin 1 - t1Factor) t1Factor (Fin 1 - t2Factor) t2Factor),
      (calculateCcdContactSegmentSegment g t1v1 t1v2 t2v2 t2v0,
         \<lambda>t t1Factor t2Factor.
            segmentSegmentFound t (Fin 1 - t1Factor) t1Factor (Fin 0) (Fin 1 - t2Factor)),
      (calculateCcdContactSegmentSegment g t1v2 t1v0 t2v0 t2v1,
         \<lambda>t t1Factor t2Factor. segmentSegmentFound t (Fin 0) (Fin 1 - t1Factor) t2Factor (Fin 0)),
      (calculateCcdContactSegmentSegment g t1v2 t1v0 t2v1 t2v2,
         \<lambda>t t1Factor t2Factor.
            segmentSegmentFound t (Fin 0) (Fin 1 - t1Factor) (Fin 1 - t2Factor) t2Factor),
      (calculateCcdContactSegmentSegment g t1v2 t1v0 t2v2 t2v0,
         \<lambda>t t1Factor t2Factor.
            segmentSegmentFound t (Fin 0) (Fin 1 - t1Factor) (Fin 0) (Fin 1 - t2Factor)),
      (calculateCcdContactPointTriangle g t1v0 t2v0 t2v1 t2v2,
         \<lambda>t u v. pointTriangleFound True t (Fin 0) (Fin 0) u v),
      (calculateCcdContactPointTriangle g t1v1 t2v0 t2v1 t2v2,
         \<lambda>t u v. pointTriangleFound True t (Fin 1) (Fin 0) u v),
      (calculateCcdContactPointTriangle g t1v2 t2v0 t2v1 t2v2,
         \<lambda>t u v. pointTriangleFound True t (Fin 0) (Fin 1) u v),
      (calculateCcdContactPointTriangle g t2v0 t1v0 t1v1 t1v2,
         \<lambda>t u v. pointTriangleFound False t u v (Fin 0) (Fin 0)),
      (calculateCcdContactPointTriangle g t2v1 t1v0 t1v1 t1v2,
         \<lambda>t u v. pointTriangleFound False t u v (Fin 1) (Fin 0)),
      (calculateCcdContactPointTriangle g t2v2 t1v0 t1v1 t1v2,
         \<lambda>t u v. pointTriangleFound False t u v (Fin 0) (Fin 1))]"

fun coefficient1 :: "Vector3d \<Rightarrow> double" where
  "coefficient1 (x, y, z) = y"

fun coefficient2 :: "Vector3d \<Rightarrow> double" where
  "coefficient2 (x, y, z) = z"

text \<open>Lines 346 to 367: the triangles overlap at the first sample time.\<close>

definition impactAtTime0 ::
  "Geometry \<Rightarrow> Vector3d \<Rightarrow> Vector3d \<Rightarrow> Motion \<Rightarrow> Motion \<Rightarrow> Motion \<Rightarrow> Motion \<Rightarrow> Motion \<Rightarrow> Motion
    \<Rightarrow> Warning list \<times> Candidate" where
  "impactAtTime0 g pt1 pt2 t1v0 t1v1 t1v2 t2v0 t2v1 t2v2 =
     (case barycentricCoordinates g pt1 (fst t1v0) (fst t1v1) (fst t1v2) of
        (found1, baryCoordTriangle1) \<Rightarrow>
          (case barycentricCoordinates g pt2 (fst t2v0) (fst t2v1) (fst t2v2) of
             (found2, baryCoordTriangle2) \<Rightarrow>
               ((if \<not> found1 then [BarycentricCoordinateWarning] else [])
                @ (if \<not> found2 then [BarycentricCoordinateWarning] else []),
                noCandidate\<lparr>segmentSegmentCcdFound := False,
                  earliestTimeOfImpact := Fin 0,
                  triangle1Alpha := coefficient1 baryCoordTriangle1,
                  triangle1Beta := coefficient2 baryCoordTriangle1,
                  triangle2Alpha := coefficient1 baryCoordTriangle2,
                  triangle2Beta := coefficient2 baryCoordTriangle2\<rparr>)))"

text \<open>Lines 336 to 578: the contact at the first sample time, else the swept tests.\<close>

definition findImpact ::
  "Geometry \<Rightarrow> Motion \<Rightarrow> Motion \<Rightarrow> Motion \<Rightarrow> Motion \<Rightarrow> Motion \<Rightarrow> Motion \<Rightarrow> Warning list \<times> Candidate" where
  "findImpact g t1v0 t1v1 t1v2 t2v0 t2v1 t2v2 =
     (case distanceTriangleTriangle g (fst t1v0) (fst t1v1) (fst t1v2) (fst t2v0) (fst t2v1) (fst t2v2) of
        (d, pt1, pt2) \<Rightarrow>
          if d \<le> Fin 0 then impactAtTime0 g pt1 pt2 t1v0 t1v1 t1v2 t2v0 t2v1 t2v2
          else ([], foldl considerTest noCandidate (sweptTests g t1v0 t1v1 t1v2 t2v0 t2v1 t2v2)))"

text \<open>
  Lines 318 to 333: a warning for each of the two triangles whose normal at the first
  sample time is shorter than \<^verbatim>\<open>DistanceEpsilon\<close>. The normalised normals are not read
  afterwards.
\<close>

definition isDegenerate :: "Geometry \<Rightarrow> Motion \<Rightarrow> Motion \<Rightarrow> Motion \<Rightarrow> bool" where
  "isDegenerate g v0 v1 v2 =
     (norm3 (cross (vsub (fst v1) (fst v0)) (vsub (fst v2) (fst v0))) < DistanceEpsilon g)"

definition degenerateWarnings ::
  "Geometry \<Rightarrow> Motion \<Rightarrow> Motion \<Rightarrow> Motion \<Rightarrow> Motion \<Rightarrow> Motion \<Rightarrow> Motion \<Rightarrow> Warning list" where
  "degenerateWarnings g t1v0 t1v1 t1v2 t2v0 t2v1 t2v2 =
     (if isDegenerate g t1v0 t1v1 t1v2 then [DegenerateTriangleWarning] else [])
     @ (if isDegenerate g t2v0 t2v1 t2v2 then [DegenerateTriangleWarning] else [])"

text \<open>The condition of the assertions of lines 586 and 592.\<close>

definition barycentricInRange :: "double \<Rightarrow> double \<Rightarrow> double \<Rightarrow> bool" where
  "barycentricInRange epsilon alpha beta =
     (alpha \<ge> - epsilon \<and> beta \<ge> - epsilon \<and> alpha + beta \<le> Fin 1 + epsilon + epsilon)"

text \<open>
  Lines 602 to 608: the points \<^verbatim>\<open>T1\<close> and \<^verbatim>\<open>T2\<close> of the two triangles at the second
  sample time. Both are taken at the coordinates of the second triangle.
\<close>

definition pointAtTime1 :: "Motion \<Rightarrow> Motion \<Rightarrow> Motion \<Rightarrow> double \<Rightarrow> double \<Rightarrow> Vector3d" where
  "pointAtTime1 v0 v1 v2 alpha beta =
     vadd (vadd (snd v0) (smul alpha (vsub (snd v1) (snd v0)))) (smul beta (vsub (snd v2) (snd v0)))"

definition pointT1 :: "Candidate \<Rightarrow> Motion \<Rightarrow> Motion \<Rightarrow> Motion \<Rightarrow> Vector3d" where
  "pointT1 c t1v0 t1v1 t1v2 = pointAtTime1 t1v0 t1v1 t1v2 (triangle2Alpha c) (triangle2Beta c)"

definition pointT2 :: "Candidate \<Rightarrow> Motion \<Rightarrow> Motion \<Rightarrow> Motion \<Rightarrow> Vector3d" where
  "pointT2 c t2v0 t2v1 t2v2 = pointAtTime1 t2v0 t2v1 t2v2 (triangle2Alpha c) (triangle2Beta c)"

text \<open>Lines 610 to 611.\<close>

definition contactNormal ::
  "Candidate \<Rightarrow> Motion \<Rightarrow> Motion \<Rightarrow> Motion \<Rightarrow> Motion \<Rightarrow> Motion \<Rightarrow> Motion \<Rightarrow> Vector3d" where
  "contactNormal c t1v0 t1v1 t1v2 t2v0 t2v1 t2v2 =
     (if segmentSegmentCcdFound c
      then normalized (vsub (pointT1 c t1v0 t1v1 t1v2) (pointT2 c t2v0 t2v1 t2v2))
      else if t1VertexThroughT2 c
      then normalized (cross (vsub (snd t2v1) (snd t2v0)) (vsub (snd t2v2) (snd t2v0)))
      else vneg (normalized (cross (vsub (snd t1v1) (snd t1v0)) (vsub (snd t1v2) (snd t1v0)))))"

text \<open>
  Lines 614 to 638: the location of a triangle, of the triangle index, the local
  coordinates and the rigid local position given to it.
\<close>

definition triangleLocation :: "nat \<Rightarrow> double \<Rightarrow> double \<Rightarrow> Vector3d \<Rightarrow> Location" where
  "triangleLocation triangleId alpha beta position =
     \<lparr>rigidLocalPosition = Some position,
      triangleMeshLocalCoordinate =
        Some \<lparr>index = triangleId, coordinate = [Fin 1 - alpha - beta, alpha, beta]\<rparr>,
      elementMeshLocalCoordinate =
        Some \<lparr>index = triangleId, coordinate = [Fin 1 - alpha - beta, alpha, beta]\<rparr>\<rparr>"

text \<open>Lines 599 to 646: the contact of a pair of triangles with an impact.\<close>

definition makeCcdContact ::
  "RigidTransform3d \<Rightarrow> nat \<Rightarrow> Candidate \<Rightarrow> Motion \<Rightarrow> Motion \<Rightarrow> Motion \<Rightarrow> Motion \<Rightarrow> Motion \<Rightarrow> Motion
    \<Rightarrow> Contact" where
  "makeCcdContact pose2AtTime1 triangleId c t1v0 t1v1 t1v2 t2v0 t2v1 t2v2 =
     (let T1 = pointT1 c t1v0 t1v1 t1v2;
          T2 = pointT2 c t2v0 t2v1 t2v2;
          n = contactNormal c t1v0 t1v1 t1v2 t2v0 t2v1 t2v2;
          penentrationDepthAtT1 = dot (vsub T2 T1) n;
          locationTriangle1 = triangleLocation triangleId (triangle1Alpha c) (triangle1Beta c)
            (transformPoint (inverseTransform pose2AtTime1) T1);
          locationTriangle2 = triangleLocation triangleId (triangle2Alpha c) (triangle2Beta c)
            (transformPoint (inverseTransform pose2AtTime1) T1)
      in \<lparr>ctype = COLLISION_DETECTION_TYPE_CONTINUOUS,
          depth = penentrationDepthAtT1,
          time = earliestTimeOfImpact c,
          contactPoint = smul (Fin (1 / 2)) (vadd T1 T2),
          normal = n,
          penetrationPoints = (locationTriangle1, locationTriangle2)\<rparr>)"

text \<open>
  Lines 312 to 648, the body of the loop over the triangles of the second shape for a
  pair that the test on the boxes lets through.
\<close>

definition trianglePairContact ::
  "Geometry \<Rightarrow> RigidTransform3d \<Rightarrow> nat \<Rightarrow> Motion \<Rightarrow> Motion \<Rightarrow> Motion \<Rightarrow> Motion \<Rightarrow> Motion \<Rightarrow> Motion
    \<Rightarrow> Failure + Warning list \<times> Contact list" where
  "trianglePairContact g pose2AtTime1 triangleId t1v0 t1v1 t1v2 t2v0 t2v1 t2v2 =
     (case findImpact g t1v0 t1v1 t1v2 t2v0 t2v1 t2v2 of
        (ws, c) \<Rightarrow>
          if deq (earliestTimeOfImpact c) (Fin DBL_MAX)
          then Inr (degenerateWarnings g t1v0 t1v1 t1v2 t2v0 t2v1 t2v2 @ ws, [])
          else if \<not> barycentricInRange (DistanceEpsilon g) (triangle1Alpha c) (triangle1Beta c)
          then Inl AssertionFailure
          else if \<not> barycentricInRange (DistanceEpsilon g) (triangle2Alpha c) (triangle2Beta c)
          then Inl AssertionFailure
          else Inr (degenerateWarnings g t1v0 t1v1 t1v2 t2v0 t2v1 t2v2 @ ws,
                 [makeCcdContact pose2AtTime1 triangleId c t1v0 t1v1 t1v2 t2v0 t2v1 t2v2]))"

text \<open>
  Lines 259 to 267 and 289 to 297: the positions of the three vertices of a triangle at
  the two sample times, read from the two meshes given.
\<close>

definition vertexMotion :: "MeshShape \<Rightarrow> MeshShape \<Rightarrow> nat \<Rightarrow> nat \<Rightarrow> Failure + Motion" where
  "vertexMotion atTime0 atTime1 id0 id1 =
     (case getVertexPosition atTime0 id0 of
        Inl e \<Rightarrow> Inl e
      | Inr p0 \<Rightarrow>
          (case getVertexPosition atTime1 id1 of
             Inl e \<Rightarrow> Inl e
           | Inr p1 \<Rightarrow> Inr (p0, p1)))"

definition triangleMotion ::
  "MeshShape \<Rightarrow> MeshShape \<Rightarrow> Triangle \<Rightarrow> Triangle \<Rightarrow> Failure + Motion \<times> Motion \<times> Motion" where
  "triangleMotion atTime0 atTime1 triangleT0 triangleT1 =
     (case (verticesId triangleT0, verticesId triangleT1) of
        ((i0, i1, i2), (j0, j1, j2)) \<Rightarrow>
          (case vertexMotion atTime0 atTime1 i0 j0 of
             Inl e \<Rightarrow> Inl e
           | Inr v0 \<Rightarrow>
               (case vertexMotion atTime0 atTime1 i1 j1 of
                  Inl e \<Rightarrow> Inl e
                | Inr v1 \<Rightarrow>
                    (case vertexMotion atTime0 atTime1 i2 j2 of
                       Inl e \<Rightarrow> Inl e
                     | Inr v2 \<Rightarrow> Inr (v0, v1, v2)))))"

text \<open>Lines 269 to 275 and 299 to 305: the box of a triangle over the two sample times.\<close>

definition sweptAabb :: "Motion \<Rightarrow> Motion \<Rightarrow> Motion \<Rightarrow> Aabbd" where
  "sweptAabb v0 v1 v2 =
     extendAabb (extendAabb (extendAabb (extendAabb (extendAabb (extendAabb emptyAabb
       (fst v0)) (snd v0)) (fst v1)) (snd v1)) (fst v2)) (snd v2)"

text \<open>Lines 279 to 648, the body of the loop over the triangles of the second shape.\<close>

definition ccdTriangle2 ::
  "Geometry \<Rightarrow> MeshShape \<Rightarrow> MeshShape \<Rightarrow> RigidTransform3d \<Rightarrow> Motion \<Rightarrow> Motion \<Rightarrow> Motion \<Rightarrow> nat
    \<Rightarrow> Failure + Warning list \<times> Contact list" where
  "ccdTriangle2 g shape2AtTime0 shape2AtTime1 pose2AtTime1 t1v0 t1v1 t1v2 triangleId =
     (case getTriangle shape2AtTime0 triangleId of
        Inl e \<Rightarrow> Inl e
      | Inr triangle2T0 \<Rightarrow>
          (case getTriangle shape2AtTime1 triangleId of
             Inl e \<Rightarrow> Inl e
           | Inr triangle2T1 \<Rightarrow>
               if verticesId triangle2T0 \<noteq> verticesId triangle2T1 then Inl AssertionFailure
               else
                 (case triangleMotion shape2AtTime0 shape2AtTime1 triangle2T0 triangle2T1 of
                    Inl e \<Rightarrow> Inl e
                  | Inr (t2v0, t2v1, t2v2) \<Rightarrow>
                      if \<not> doAabbIntersect g (sweptAabb t1v0 t1v1 t1v2) (sweptAabb t2v0 t2v1 t2v2)
                      then Inr ([], [])
                      else trianglePairContact g pose2AtTime1 triangleId
                             t1v0 t1v1 t1v2 t2v0 t2v1 t2v2)))"

text \<open>
  Lines 249 to 649, the body of the loop over the triangles of the first shape. The
  positions of the vertices of its triangles are read from the second shape.
\<close>

definition ccdTriangle1 ::
  "Geometry \<Rightarrow> MeshShape \<Rightarrow> MeshShape \<Rightarrow> MeshShape \<Rightarrow> MeshShape \<Rightarrow> RigidTransform3d \<Rightarrow> nat
    \<Rightarrow> Failure + Warning list \<times> Contact list" where
  "ccdTriangle1 g shape1AtTime0 shape1AtTime1 shape2AtTime0 shape2AtTime1 pose2AtTime1 triangle1Id =
     (case getTriangle shape1AtTime0 triangle1Id of
        Inl e \<Rightarrow> Inl e
      | Inr triangle1T0 \<Rightarrow>
          (case getTriangle shape1AtTime1 triangle1Id of
             Inl e \<Rightarrow> Inl e
           | Inr triangle1T1 \<Rightarrow>
               if verticesId triangle1T0 \<noteq> verticesId triangle1T1 then Inl AssertionFailure
               else
                 (case triangleMotion shape2AtTime0 shape2AtTime1 triangle1T0 triangle1T1 of
                    Inl e \<Rightarrow> Inl e
                  | Inr (t1v0, t1v1, t1v2) \<Rightarrow>
                      collect (ccdTriangle2 g shape2AtTime0 shape2AtTime1 pose2AtTime1 t1v0 t1v1 t1v2)
                        [0 ..< getNumTriangles shape2AtTime0])))"

text \<open>
  \<^verbatim>\<open>TriangleMeshTriangleMeshContact::calculateCcdContact\<close>: the four assertions on the
  numbers of triangles, then the two loops.
\<close>

definition calculateCcdContact ::
  "Geometry \<Rightarrow> MeshShape \<Rightarrow> RigidTransform3d \<Rightarrow> MeshShape \<Rightarrow> RigidTransform3d
    \<Rightarrow> MeshShape \<Rightarrow> RigidTransform3d \<Rightarrow> MeshShape \<Rightarrow> RigidTransform3d
    \<Rightarrow> Failure + Warning list \<times> Contact list" where
  "calculateCcdContact g shape1AtTime0 pose1AtTime0 shape1AtTime1 pose1AtTime1
       shape2AtTime0 pose2AtTime0 shape2AtTime1 pose2AtTime1 =
     (if \<not> getNumTriangles shape1AtTime0 > 0 then Inl AssertionFailure
      else if getNumTriangles shape1AtTime0 \<noteq> getNumTriangles shape1AtTime1 then Inl AssertionFailure
      else if \<not> getNumTriangles shape2AtTime0 > 0 then Inl AssertionFailure
      else if getNumTriangles shape2AtTime0 \<noteq> getNumTriangles shape2AtTime1 then Inl AssertionFailure
      else collect (ccdTriangle1 g shape1AtTime0 shape1AtTime1 shape2AtTime0 shape2AtTime1 pose2AtTime1)
             [0 ..< getNumTriangles shape1AtTime0])"

subsection \<open>Inputs of the calculator used in the examples\<close>

definition vec :: "real \<Rightarrow> real \<Rightarrow> real \<Rightarrow> Vector3d" where
  "vec x y z = (Fin x, Fin y, Fin z)"

text \<open>
  Two triangles whose edges cross. The first one stands in the plane \<open>y = 0\<close> with its
  lower edge from \<open>(-1, 0, 1)\<close> to \<open>(1, 0, 1)\<close> and moves down by 2 during the step; the
  second one hangs in the plane \<open>x = 0\<close> from its upper edge from \<open>(0, -1, 0)\<close> to
  \<open>(0, 1, 0)\<close> and does not move. At the first sample time they are at distance 1, the
  closest points being \<open>(0, 0, 1)\<close> and the origin. The lower edge of the first reaches the
  upper edge of the second at time \<open>1/2\<close>, in the middle of both; no other pair of edges
  meets during the step, and no vertex of one crosses the plane of the other.
\<close>

definition edgeA0 :: Motion where "edgeA0 = (vec (- 1) 0 1, vec (- 1) 0 (- 1))"
definition edgeA1 :: Motion where "edgeA1 = (vec 1 0 1, vec 1 0 (- 1))"
definition apexA :: Motion where "apexA = (vec (1 / 2) 0 3, vec (1 / 2) 0 1)"
definition edgeB0 :: Motion where "edgeB0 = (vec 0 (- 1) 0, vec 0 (- 1) 0)"
definition edgeB1 :: Motion where "edgeB1 = (vec 0 1 0, vec 0 1 0)"
definition apexB :: Motion where "apexB = (vec 0 (1 / 2) (- 2), vec 0 (1 / 2) (- 2))"

text \<open>
  A triangle that rests in the plane \<open>y = 0\<close> with its lower edge from \<open>(-1, 0, 0)\<close> to
  \<open>(1, 0, 0)\<close>: this edge lies across the upper edge of the hanging triangle, the two
  triangles touch at the origin, in the middle of both edges.
\<close>

definition restA0 :: Motion where "restA0 = (vec (- 1) 0 0, vec (- 1) 0 0)"
definition restA1 :: Motion where "restA1 = (vec 1 0 0, vec 1 0 0)"
definition restApex :: Motion where "restApex = (vec (1 / 2) 0 1, vec (1 / 2) 0 1)"

text \<open>
  A triangle for the discrete detection, in the plane \<open>z = 0\<close>, and a second one in the
  plane \<open>x = 1\<close> whose vertex \<open>(1, 1, -1/128)\<close> has gone through the first by \<open>1/128\<close>.
\<close>

definition flatTriangle :: "Vector3d \<times> Vector3d \<times> Vector3d" where
  "flatTriangle = (vec 0 0 0, vec 4 0 0, vec 0 4 0)"

definition uprightTriangle :: "Vector3d \<times> Vector3d \<times> Vector3d" where
  "uprightTriangle = (vec 1 1 (- 1 / 128), vec 1 2 1, vec 1 1 1)"

text \<open>
  The results of the geometric tests on these triangles, and no contact, no root and no
  coordinates on any other input: the segment/segment test finds the root at time \<open>1/2\<close>
  in the middle of the two crossing edges, in either direction of the first; the distance
  of the resting and the hanging triangle is 0, the closest points being the origin, whose
  barycentric coordinates are \<open>(1/2, 1/2, 0)\<close> in both; the distance of the moving pair at
  the first sample time is 1; the discrete test finds the depth \<open>1/128\<close> along \<open>-z\<close> at
  the vertex that went through. Boxes intersect when they overlap on every axis.
\<close>

fun boxesOverlap :: "Aabbd \<Rightarrow> Aabbd \<Rightarrow> bool" where
  "boxesOverlap ((alx, aly, alz), (ahx, ahy, ahz)) ((blx, bly, blz), (bhx, bhy, bhz)) =
     (alx \<le> bhx \<and> blx \<le> ahx \<and> aly \<le> bhy \<and> bly \<le> ahy \<and> alz \<le> bhz \<and> blz \<le> ahz)"

definition exampleGeometry :: Geometry where
  "exampleGeometry =
     \<lparr>DistanceEpsilon = lit (1 / 10 ^ 10),
      doAabbIntersect = boxesOverlap,
      calculateContactTriangleTriangle =
        (\<lambda>a0 a1 a2 b0 b1 b2 na nb.
           if (a0, a1, a2) = flatTriangle \<and> (b0, b1, b2) = uprightTriangle
           then Some (Fin (1 / 128), vec 1 1 0, vec 1 1 (- 1 / 128), vec 0 0 (- 1))
           else None),
      barycentricCoordinatesWithNormal =
        (\<lambda>p v0 v1 v2 n.
           if p = vec 1 1 0 \<and> (v0, v1, v2) = flatTriangle then (True, vec (1 / 2) (1 / 4) (1 / 4))
           else if p = vec 1 1 (- 1 / 128) \<and> (v0, v1, v2) = uprightTriangle then (True, vec 1 0 0)
           else (False, (NaN, NaN, NaN))),
      barycentricCoordinates =
        (\<lambda>p v0 v1 v2.
           if p = vec 0 0 0 \<and> (v0, v1, v2) = (fst restA0, fst restA1, fst restApex)
           then (True, vec (1 / 2) (1 / 2) 0)
           else if p = vec 0 0 0 \<and> (v0, v1, v2) = (fst edgeB0, fst edgeB1, fst apexB)
           then (True, vec (1 / 2) (1 / 2) 0)
           else (False, (NaN, NaN, NaN))),
      distanceTriangleTriangle =
        (\<lambda>a0 a1 a2 b0 b1 b2.
           if (a0, a1, a2) = (fst restA0, fst restA1, fst restApex)
              \<and> (b0, b1, b2) = (fst edgeB0, fst edgeB1, fst apexB)
           then (Fin 0, vec 0 0 0, vec 0 0 0)
           else (Fin 1, vec 0 0 1, vec 0 0 0)),
      calculateCcdContactSegmentSegment =
        (\<lambda>p0 p1 q0 q1.
           if q0 = edgeB0 \<and> q1 = edgeB1 \<and> ((p0, p1) = (edgeA0, edgeA1) \<or> (p0, p1) = (edgeA1, edgeA0))
           then Some (Fin (1 / 2), Fin (1 / 2), Fin (1 / 2))
           else None),
      calculateCcdContactPointTriangle = (\<lambda>p q0 q1 q2. None)\<rparr>"

text \<open>
  Meshes with these triangles. The second shape holds the six vertices, since the
  calculator reads the vertices of both triangles from it, and the hanging triangle; the
  first shape holds the moving triangle. In the degenerate variant the third vertex of
  the moving triangle lies on its first one.
\<close>

definition meshOf :: "Vector3d list \<Rightarrow> (nat \<times> nat \<times> nat) list \<Rightarrow> Vector3d list \<Rightarrow> MeshShape" where
  "meshOf vs ts ns =
     \<lparr>vertexPositions = vs, triangles = map (\<lambda>t. \<lparr>verticesId = t, isValid = True\<rparr>) ts, normals = ns\<rparr>"

definition movingShapeAt :: "(Motion \<Rightarrow> Vector3d) \<Rightarrow> Motion \<Rightarrow> MeshShape" where
  "movingShapeAt sample third =
     meshOf [sample edgeA0, sample edgeA1, sample third] [(0, 1, 2)] [vec 0 (- 1) 0]"

definition hangingShapeAt :: "(Motion \<Rightarrow> Vector3d) \<Rightarrow> Motion \<Rightarrow> MeshShape" where
  "hangingShapeAt sample third =
     meshOf [sample edgeA0, sample edgeA1, sample third, sample edgeB0, sample edgeB1, sample apexB]
       [(3, 4, 5)] [vec 1 0 0]"

text \<open>The continuous detection on the moving and the hanging triangle.\<close>

definition crossingEdges :: "Motion \<Rightarrow> Failure + Warning list \<times> Contact list" where
  "crossingEdges third =
     calculateCcdContact exampleGeometry
       (movingShapeAt fst third) identityTransform (movingShapeAt snd third) identityTransform
       (hangingShapeAt fst third) identityTransform (hangingShapeAt snd third) identityTransform"

text \<open>
  The contact it yields: at time \<open>1/2\<close>, in the middle of the first edge of each triangle,
  with the point \<open>(0, 0, -1)\<close> of the moving triangle at the second sample time below the
  point \<open>(0, 0, 0)\<close> of the hanging one.
\<close>

definition crossingContact :: Contact where
  "crossingContact =
     \<lparr>ctype = COLLISION_DETECTION_TYPE_CONTINUOUS, depth = Fin (- 1), time = Fin (1 / 2),
      contactPoint = vec 0 0 (- 1 / 2), normal = vec 0 0 (- 1),
      penetrationPoints =
        (triangleLocation 0 (Fin (1 / 2)) (Fin 0) (vec 0 0 (- 1)),
         triangleLocation 0 (Fin (1 / 2)) (Fin 0) (vec 0 0 (- 1)))\<rparr>"

text \<open>
  The contact of the resting and the hanging triangle: at time 0, in the middle of the
  first edge of each, with the normal of the resting triangle.
\<close>

definition touchingContact :: Contact where
  "touchingContact =
     \<lparr>ctype = COLLISION_DETECTION_TYPE_CONTINUOUS, depth = Fin 0, time = Fin 0,
      contactPoint = vec 0 0 0, normal = (NegZero, Fin 1, NegZero),
      penetrationPoints =
        (triangleLocation 0 (Fin (1 / 2)) (Fin 0) (vec 0 0 0),
         triangleLocation 0 (Fin (1 / 2)) (Fin 0) (vec 0 0 0))\<rparr>"

definition flatMesh :: MeshShape where
  "flatMesh =
     meshOf [vec 0 0 0, vec 4 0 0, vec 0 4 0] [(0, 1, 2), (0, 1, 1)] [vec 0 0 1, vec 0 0 0]"

definition uprightMesh :: MeshShape where
  "uprightMesh = meshOf [vec 1 1 (- 1 / 128), vec 1 2 1, vec 1 1 1] [(0, 1, 2)] [vec 1 0 0]"

text \<open>The discrete detection on the flat and the upright mesh, and the contact it yields.\<close>

definition piercedTriangle :: "Failure + Warning list \<times> Contact list" where
  "piercedTriangle =
     calculateDcdContact exampleGeometry [([0, 1], [0])]
       flatMesh identityTransform uprightMesh identityTransform"

definition piercedContact :: Contact where
  "piercedContact =
     \<lparr>ctype = COLLISION_DETECTION_TYPE_DISCRETE, depth = Fin (1 / 128), time = Fin 1,
      contactPoint = Vector3d_Zero, normal = vec 0 0 (- 1),
      penetrationPoints =
        (\<lparr>rigidLocalPosition = Some (vec 1 1 0),
          triangleMeshLocalCoordinate =
            Some \<lparr>index = 0, coordinate = [Fin (1 / 2), Fin (1 / 4), Fin (1 / 4)]\<rparr>,
          elementMeshLocalCoordinate = None\<rparr>,
         \<lparr>rigidLocalPosition = Some (vec 1 1 (- 1 / 128)),
          triangleMeshLocalCoordinate = Some \<lparr>index = 0, coordinate = [Fin 1, Fin 0, Fin 0]\<rparr>,
          elementMeshLocalCoordinate = None\<rparr>)\<rparr>"

section \<open>Evaluation of the numbers\<close>

declare ccdLoop.simps [simp del]

declare bitLength.simps [simp del]

text \<open>
  The rules that evaluate a rounding, an operation or a literal on given numbers. A
  \<open>let\<close> is unfolded once the value it binds has been computed.
\<close>

lemma Let_number: "Let (x :: real) f = f x" "Let (k :: int) g = g k"
  by simp_all

lemma Let_double:
  "Let (Fin x) f = f (Fin x)" "Let NegZero f = f NegZero" "Let PInf f = f PInf"
  "Let NInf f = f NInf" "Let NaN f = f NaN"
  by simp_all

lemma Let_pair: "Let (a, b) f = f (a, b)"
  by simp

lemma Let_vars: "Let (r :: 's LoopVars) f = f r"
  by simp

lemmas round_defs = roundToDouble_def exponentOf_def pow2_def roundHalfEven_def bitLength.simps
  DBL_MAX_def signedInf_def signedZero_def lit_def Let_number

lemmas double_defs = one_double_def zero_double_def minus_double_def inverse_double_def
  times_double_def divide_double_def isInf_def isZeroDouble_def round_defs

lemma literals:
  "lit (1 / 10) = Fin (3602879701896397 / 2 ^ 55)"
  "lit (2 / 10) = Fin (3602879701896397 / 2 ^ 54)"
  "lit (3 / 10) = Fin (5404319552844595 / 2 ^ 54)"
  "lit (11 / 100) = Fin (7926335344172073 / 2 ^ 56)"
  "lit (1 / 100) = Fin (5764607523034235 / 2 ^ 59)"
  "lit (99 / 100) = Fin (4458563631096791 / 2 ^ 52)"
  "lit (101 / 100) = Fin (4548635623644201 / 2 ^ 52)"
  by (simp_all add: round_defs cong: let_weak_cong)

section \<open>Properties of the earliest-impact filter\<close>

lemmas loop_defs = doUpdate_def selectCcdPairs_def ccdPair_def loopBody_def resolveContacts_def
  detectsContacts_def remembersContacts_def accumulateToi_def epsilonOf_def filterContacts_def
  earliestContactTime_def removeLaterContacts_def ccdContact_def std_min_def
  clearContacts_def iterationsRun_def initialVars_def allContacts_def

lemma one_lt_DBL_MAX: "1 < DBL_MAX"
  by (simp add: DBL_MAX_def)

lemma foldl_std_min_pairs:
  "foldl (\<lambda>thr pair. foldl (\<lambda>thr contact. std_min thr (time contact)) thr (contacts pair)) t ps
   = foldl (\<lambda>thr contact. std_min thr (time contact)) t (concat (map contacts ps))"
  by (induction ps arbitrary: t) simp_all

lemma earliestContactTime_allContacts:
  "earliestContactTime ps = foldl (\<lambda>thr contact. std_min thr (time contact)) (Fin DBL_MAX) (allContacts ps)"
  by (simp add: earliestContactTime_def allContacts_def foldl_std_min_pairs)

lemma std_min_cases: "std_min a b = b \<and> b < a \<or> std_min a b = a \<and> \<not> b < a"
  by (simp add: std_min_def)

lemma less_double_trans: "(a::double) < b \<Longrightarrow> b < c \<Longrightarrow> a < c"
  by (cases a; cases b; cases c) auto

lemma less_double_irrefl: "\<not> (a::double) < a"
  by (cases a) auto

lemma less_le_double_trans: "(a::double) < b \<Longrightarrow> b \<le> c \<Longrightarrow> a < c"
  by (cases a; cases b; cases c) auto

lemma less_imp_le_double: "(a::double) < b \<Longrightarrow> a \<le> b"
  by (cases a; cases b) auto

lemma not_less_double: "a \<noteq> NaN \<Longrightarrow> b \<noteq> NaN \<Longrightarrow> (\<not> (a::double) < b) = (b \<le> a)"
  by (cases a; cases b) auto

lemma le_double_refl: "a \<noteq> NaN \<Longrightarrow> (a::double) \<le> a"
  by (cases a) auto

lemma inUnitInterval_number: "inUnitInterval t \<Longrightarrow> t \<noteq> NaN"
  by (cases t) (auto simp: inUnitInterval_def)

lemma inUnitInterval_refl: "inUnitInterval t \<Longrightarrow> t \<le> t"
  by (cases t) (auto simp: inUnitInterval_def)

lemma inUnitInterval_less_DBL_MAX: "inUnitInterval t \<Longrightarrow> t < Fin DBL_MAX"
  using one_lt_DBL_MAX by (cases t) (auto simp: inUnitInterval_def)

text \<open>
  The running minimum, started from a number: it is a number, it is the start or the time
  of a contact, and neither the start nor the time of a contact is below it.
\<close>

lemma foldl_std_min_char:
  assumes "t \<noteq> NaN"
  shows "let m = foldl (\<lambda>thr contact. std_min thr (time contact)) t cs in
     m \<noteq> NaN \<and> (m = t \<or> m \<in> time ` set cs) \<and> \<not> t < m \<and> (\<forall>c \<in> set cs. \<not> time c < m)"
  using assms
proof (induction cs arbitrary: t)
  case Nil
  then show ?case by (simp add: less_double_irrefl)
next
  case (Cons c cs)
  let ?t' = "std_min t (time c)"
  have t': "?t' \<noteq> NaN" using Cons.prems by (cases "time c"; cases t) (auto simp: std_min_def)
  note IH = Cons.IH[OF t', unfolded Let_def]
  let ?m = "foldl (\<lambda>thr contact. std_min thr (time contact)) ?t' cs"
  from IH have m: "\<not> ?t' < ?m" by simp
  have a: "\<not> t < ?m"
  proof
    assume "t < ?m"
    moreover have "?t' = t \<or> ?t' < t" using std_min_cases [of t "time c"] by auto
    ultimately have "?t' < ?m" by (auto intro: less_double_trans)
    with m show False ..
  qed
  have b: "\<not> time c < ?m"
  proof
    assume lt: "time c < ?m"
    have "?t' = time c \<or> \<not> time c < t" using std_min_cases [of t "time c"] by auto
    then show False
    proof
      assume "?t' = time c"
      with lt m show False by simp
    next
      assume n: "\<not> time c < t"
      then have "?t' = t" by (simp add: std_min_def)
      with IH have "?m = t \<or> ?m \<in> time ` set cs" "\<not> t < ?m" by simp_all
      with lt n Cons.prems show False
        by (cases "time c"; cases t; cases ?m) auto
    qed
  qed
  have c: "?m = t \<or> ?m \<in> time ` set (c # cs)" using IH by (auto simp: std_min_def split: if_splits)
  show ?case unfolding Let_def using IH a b c by simp
qed

lemma earliest_char:
  "let m = earliestContactTime ps in
     m \<noteq> NaN \<and> (m = Fin DBL_MAX \<or> m \<in> time ` set (allContacts ps)) \<and> \<not> Fin DBL_MAX < m
     \<and> (\<forall>c \<in> set (allContacts ps). \<not> time c < m)"
  unfolding earliestContactTime_allContacts
  by (rule foldl_std_min_char) simp

lemma earliest_found_iff:
  "earliestContactTime ps < Fin DBL_MAX \<longleftrightarrow> (\<exists>c \<in> set (allContacts ps). time c < Fin DBL_MAX)"
proof
  assume "earliestContactTime ps < Fin DBL_MAX"
  with earliest_char[of ps] show "\<exists>c \<in> set (allContacts ps). time c < Fin DBL_MAX"
    by (auto simp: Let_def less_double_irrefl)
next
  assume "\<exists>c \<in> set (allContacts ps). time c < Fin DBL_MAX"
  then obtain c where c: "c \<in> set (allContacts ps)" "time c < Fin DBL_MAX" by blast
  from earliest_char[of ps] c have "\<not> time c < earliestContactTime ps" "earliestContactTime ps \<noteq> NaN"
     "\<not> Fin DBL_MAX < earliestContactTime ps"
    by (auto simp: Let_def)
  with c(2) show "earliestContactTime ps < Fin DBL_MAX"
    by (cases "time c"; cases "earliestContactTime ps") auto
qed

lemma allContacts_removeLaterContacts:
  "allContacts (removeLaterContacts thr ps) = filter (\<lambda>contact. \<not> (time contact > thr)) (allContacts ps)"
  by (induction ps) (simp_all add: allContacts_def removeLaterContacts_def)

lemma earliest_of_times:
  assumes "time ` set (allContacts ps) = Fin ` S" "finite S" "S \<noteq> {}" "Min S < DBL_MAX"
  shows "earliestContactTime ps = Fin (Min S)"
proof -
  let ?m = "earliestContactTime ps"
  have MinS: "Min S \<in> S" using assms by simp
  then obtain c where c: "c \<in> set (allContacts ps)" "time c = Fin (Min S)"
    using assms(1) by (metis (no_types, lifting) image_iff)
  then have "?m < Fin DBL_MAX" unfolding earliest_found_iff using assms(4) by force
  with earliest_char[of ps] have mem: "?m \<in> Fin ` S" and lb: "\<forall>c \<in> set (allContacts ps). \<not> time c < ?m"
    using assms(1) by (auto simp: Let_def less_double_irrefl)
  from mem obtain x where x: "x \<in> S" "?m = Fin x" by blast
  from lb c have "\<not> Min S < x" using x by auto
  moreover have "Min S \<le> x" using x assms by simp
  ultimately show ?thesis using x by simp
qed

lemma mset_times_filter:
  "mset (map time (filter (\<lambda>c. P (time c)) xs)) = filter_mset P (mset (map time xs))"
  by (induction xs) simp_all

lemma filterContacts_found:
  assumes "earliestContactTime ps = m" "m < Fin DBL_MAX"
  shows "filterContacts ps epsilon ct
         = (True, removeLaterContacts (m + epsilon) ps, m + epsilon)"
  using assms by (simp add: filterContacts_def Let_def)

lemma length_as_size: "length (xs :: Contact list) = size (mset (map time xs))"
  by simp

text \<open>
  C1. Given pairs whose contacts have the times 0.1, 0.2 and 0.3, in any order and on
  any of the pairs: with epsilon 0 the filter returns true, reports the time of impact
  0.1 and leaves exactly one contact, the one at 0.1; with epsilon 0.11 it returns true
  and leaves exactly two contacts, those at 0.1 and 0.2.
\<close>

theorem filterContacts_times_example:
  assumes "mset (map time (allContacts ps)) = {#lit (1/10), lit (2/10), lit (3/10)#}"
  shows "(case filterContacts ps (Fin 0) ct of (found, kept, reported) \<Rightarrow>
            found \<and> reported = lit (1/10) \<and> mset (map time (allContacts kept)) = {#lit (1/10)#}
            \<and> length (allContacts kept) = 1)
       \<and> (case filterContacts ps (lit (11/100)) ct of (found, kept, reported) \<Rightarrow>
            found \<and> mset (map time (allContacts kept)) = {#lit (1/10), lit (2/10)#}
            \<and> length (allContacts kept) = 2)"
proof -
  note times = assms [unfolded literals]
  have "set_mset (mset (map time (allContacts ps)))
        = Fin ` {3602879701896397 / 2 ^ 55, 3602879701896397 / 2 ^ 54, 5404319552844595 / 2 ^ 54}"
    unfolding times by auto
  then have S: "time ` set (allContacts ps)
        = Fin ` {3602879701896397 / 2 ^ 55, 3602879701896397 / 2 ^ 54, 5404319552844595 / 2 ^ 54}"
    by simp
  have e: "earliestContactTime ps = Fin (3602879701896397 / 2 ^ 55)"
    using earliest_of_times[OF S] by (simp add: DBL_MAX_def)
  have lt: "Fin (3602879701896397 / 2 ^ 55) < Fin DBL_MAX" by (simp add: DBL_MAX_def)
  have z: "Fin (3602879701896397 / 2 ^ 55) + Fin 0 = Fin (3602879701896397 / 2 ^ 55)"
    "Fin (3602879701896397 / 2 ^ 55) + Fin (7926335344172073 / 2 ^ 56) = Fin (3783023686991217 / 2 ^ 54)"
    by (simp_all add: round_defs cong: let_weak_cong)
  note f = filterContacts_found[OF e lt, of "Fin 0" ct, unfolded z]
    filterContacts_found[OF e lt, of "Fin (7926335344172073 / 2 ^ 56)" ct, unfolded z]
  have m: "mset (map time (allContacts (removeLaterContacts thr ps)))
       = filter_mset (\<lambda>t. \<not> t > thr)
           {#Fin (3602879701896397 / 2 ^ 55), Fin (3602879701896397 / 2 ^ 54), Fin (5404319552844595 / 2 ^ 54)#}" for thr
    unfolding allContacts_removeLaterContacts
    using mset_times_filter[of "\<lambda>t. \<not> t > thr" "allContacts ps"] times by simp
  have a: "mset (map time (allContacts (removeLaterContacts (Fin (3602879701896397 / 2 ^ 55)) ps)))
      = {#Fin (3602879701896397 / 2 ^ 55)#}"
    unfolding m by simp
  have b: "mset (map time (allContacts (removeLaterContacts (Fin (3783023686991217 / 2 ^ 54)) ps)))
      = {#Fin (3602879701896397 / 2 ^ 55), Fin (3602879701896397 / 2 ^ 54)#}"
    unfolding m by simp
  have a': "length (allContacts (removeLaterContacts (Fin (3602879701896397 / 2 ^ 55)) ps)) = 1"
    unfolding length_as_size a by simp
  have b': "length (allContacts (removeLaterContacts (Fin (3783023686991217 / 2 ^ 54)) ps)) = 2"
    unfolding length_as_size b by simp
  show ?thesis
    unfolding literals f prod.case using a b a' b' by (intro conjI TrueI refl)
qed

theorem filterContacts_times_example_witness:
  "mset (map time (allContacts [ccdPair [ccdContact (lit (1/10)), ccdContact (lit (2/10)), ccdContact (lit (3/10))]]))
     = {#lit (1/10), lit (2/10), lit (3/10)#}
   \<and> (case filterContacts [ccdPair [ccdContact (lit (1/10)), ccdContact (lit (2/10)), ccdContact (lit (3/10))]]
              (Fin 0) (Fin 0) of
         (found, kept, reported) \<Rightarrow>
           found \<and> reported = lit (1/10) \<and> mset (map time (allContacts kept)) = {#lit (1/10)#}
           \<and> length (allContacts kept) = 1)
   \<and> (case filterContacts [ccdPair [ccdContact (lit (1/10)), ccdContact (lit (2/10)), ccdContact (lit (3/10))]]
              (lit (11/100)) (Fin 0) of
         (found, kept, reported) \<Rightarrow>
           found \<and> mset (map time (allContacts kept)) = {#lit (1/10), lit (2/10)#}
           \<and> length (allContacts kept) = 2)"
proof -
  have h: "mset (map time (allContacts [ccdPair [ccdContact (lit (1/10)), ccdContact (lit (2/10)), ccdContact (lit (3/10))]]))
     = {#lit (1/10), lit (2/10), lit (3/10)#}"
    by (simp add: allContacts_def ccdPair_def ccdContact_def)
  from h filterContacts_times_example [OF h, of "Fin 0"] show ?thesis
    by (rule conjI)
qed

text \<open>
  The two cases of the unit test of the filter, on one pair. The time reported with
  epsilon 0.11 is the rounded sum, the double 0.21000000000000002.
\<close>

lemma filterContacts_unit_test:
  "filterContacts [ccdPair [ccdContact (lit (1/10)), ccdContact (lit (2/10)), ccdContact (lit (3/10))]] (Fin 0) ct
     = (True, [ccdPair [ccdContact (lit (1/10))]], lit (1/10))"
  "filterContacts [ccdPair [ccdContact (lit (1/10)), ccdContact (lit (2/10)), ccdContact (lit (3/10))]] (lit (11/100)) ct
     = (True, [ccdPair [ccdContact (lit (1/10)), ccdContact (lit (2/10))]], Fin (3783023686991217 / 2 ^ 54))"
  by (simp_all add: literals filterContacts_def earliestContactTime_def removeLaterContacts_def
      ccdPair_def ccdContact_def std_min_def DBL_MAX_def round_defs Let_double cong: let_weak_cong)

section \<open>Properties of the loop\<close>

lemmas loop_eval = loop_defs double_defs literals Let_double Let_pair Let_vars

lemma filterContacts_false_iff:
  "\<not> fst (filterContacts ps epsilon ct) \<longleftrightarrow> \<not> (\<exists>c \<in> set (allContacts ps). time c < Fin DBL_MAX)"
  unfolding earliest_found_iff[symmetric] by (simp add: filterContacts_def Let_def)

lemma filterContacts_false_unchanged:
  "\<not> fst (filterContacts ps epsilon ct) \<Longrightarrow> filterContacts ps epsilon ct = (False, ps, ct)"
  by (simp add: filterContacts_def Let_def split: if_splits)

text \<open>One iteration, as a function of what the detection yields.\<close>

lemma loopBody_not_found:
  assumes "ccdCollision cs dt (updateCcdData cs (localToi v) (ccdPairs v, lastState v)) = (detected, s)"
    and "\<not> fst (filterContacts detected (epsilonOf (accumulateToi (toi v) (localToi v)) ef) (localToi v))"
  shows "loopBody cs ef dt v
         = (True, v\<lparr>toi := accumulateToi (toi v) (localToi v), ccdPairs := detected, lastState := s,
              events := events v @ [UpdateCcdData (localToi v), CcdCollision,
                FilterContacts (epsilonOf (accumulateToi (toi v) (localToi v)) ef) False]\<rparr>)"
  using filterContacts_false_unchanged [OF assms(2)] assms(1)
  by (simp add: loopBody_def Let_def)

lemma loopBody_found:
  assumes "ccdCollision cs dt (updateCcdData cs (localToi v) (ccdPairs v, lastState v)) = (detected, s)"
    and "earliestContactTime detected < Fin DBL_MAX"
  shows "loopBody cs ef dt v
         = (accumulateToi (toi v) (localToi v) > 1,
            v\<lparr>toi := accumulateToi (toi v) (localToi v),
              localToi := earliestContactTime detected + epsilonOf (accumulateToi (toi v) (localToi v)) ef,
              ccdPairs := clearContacts (fst (pushResults cs dt (solveMlcp cs dt (buildMlcp cs dt
                (constraintGeneration cs dt
                  (removeLaterContacts
                    (earliestContactTime detected + epsilonOf (accumulateToi (toi v) (localToi v)) ef)
                    detected, s)))))),
              lastState := snd (pushResults cs dt (solveMlcp cs dt (buildMlcp cs dt
                (constraintGeneration cs dt
                  (removeLaterContacts
                    (earliestContactTime detected + epsilonOf (accumulateToi (toi v) (localToi v)) ef)
                    detected, s))))),
              events := events v @ [UpdateCcdData (localToi v), CcdCollision,
                FilterContacts (epsilonOf (accumulateToi (toi v) (localToi v)) ef) True,
                ConstraintGeneration, BuildMlcp, SolveMlcp, PushResults, ClearContacts]\<rparr>)"
  using filterContacts_found [OF refl assms(2)] assms(1)
  by (simp add: loopBody_def resolveContacts_def Let_def)

lemma loopBody_toi: "toi (snd (loopBody cs ef dt v)) = accumulateToi (toi v) (localToi v)"
  by (simp add: loopBody_def Let_def resolveContacts_def split: prod.splits)

lemma ccdLoop_break:
  "iterations - 1 > 0 \<Longrightarrow> fst (loopBody cs ef dt v)
   \<Longrightarrow> ccdLoop cs ef dt iterations v = (iterations - 1, snd (loopBody cs ef dt v))"
  by (subst ccdLoop.simps) (simp add: case_prod_beta)

lemma ccdLoop_continue:
  "iterations - 1 > 0 \<Longrightarrow> \<not> fst (loopBody cs ef dt v)
   \<Longrightarrow> ccdLoop cs ef dt iterations v = ccdLoop cs ef dt (iterations - 1) (snd (loopBody cs ef dt v))"
  by (subst ccdLoop.simps) (simp add: case_prod_beta)

lemma ccdLoop_done: "\<not> iterations - 1 > 0 \<Longrightarrow> ccdLoop cs ef dt iterations v = (iterations - 1, v)"
  by (subst ccdLoop.simps) simp

lemma selectCcdPairs_ccdPair: "selectCcdPairs [ccdPair cs] = [ccdPair cs]"
  by (simp add: selectCcdPairs_def ccdPair_def)

text \<open>
  Whatever the computations do, the loop ends, and the number of iterations it runs is at
  most the budget less one (as unsigned numbers: a budget of 0 wraps around). An iteration
  begins whenever the budget allows one.
\<close>

lemma loopBody_iterationsRun:
  "iterationsRun (events (snd (loopBody cs ef dt v))) = Suc (iterationsRun (events v))"
  by (simp add: loopBody_def resolveContacts_def Let_def iterationsRun_def split: prod.splits)

lemma ccdLoop_iterationsRun_le:
  "iterationsRun (events (snd (ccdLoop cs ef dt n v))) \<le> iterationsRun (events v) + unat (n - 1)"
proof (induction cs ef dt n v rule: ccdLoop.induct)
  case (1 cs ef dt n v)
  show ?case
  proof (cases "n - 1 > 0")
    case False
    then show ?thesis by (simp add: ccdLoop_done)
  next
    case True
    then have nz: "n - 1 \<noteq> 0" by auto
    then have pos: "0 < unat (n - 1)" by (simp only: unat_gt_0 not_False_eq_True)
    have dec: "unat (n - 1 - 1) = unat (n - 1) - 1" by (rule unat_minus_one [OF nz])
    show ?thesis
    proof (cases "fst (loopBody cs ef dt v)")
      case stop: True
      from ccdLoop_break [OF True stop] pos show ?thesis
        by (simp add: loopBody_iterationsRun)
    next
      case go: False
      obtain s v' where b: "loopBody cs ef dt v = (s, v')" by (cases "loopBody cs ef dt v")
      with go have s: "\<not> s" by simp
      from "1.IH" [OF True b [symmetric] s]
      have "iterationsRun (events (snd (ccdLoop cs ef dt (n - 1) v')))
            \<le> iterationsRun (events v') + unat (n - 1 - 1)" .
      moreover have "iterationsRun (events v') = Suc (iterationsRun (events v))"
        using loopBody_iterationsRun [of cs ef dt v] b by simp
      ultimately show ?thesis
        using ccdLoop_continue [OF True go] b pos dec by simp
    qed
  qed
qed



lemma doUpdate_iterationsRun_le:
  "iterationsRun (events (doUpdate cs maxIterations ef dt collisionPairs state)) \<le> unat (maxIterations - 1)"
proof -
  obtain k v where r: "ccdLoop cs ef dt maxIterations (initialVars collisionPairs state) = (k, v)"
    by (cases "ccdLoop cs ef dt maxIterations (initialVars collisionPairs state)")
  have "iterationsRun (events (initialVars collisionPairs state)) = 0"
    by (simp add: initialVars_def iterationsRun_def)
  then have "iterationsRun (events v) \<le> unat (maxIterations - 1)"
    using ccdLoop_iterationsRun_le [of cs ef dt maxIterations "initialVars collisionPairs state"]
    by (simp add: r)
  then show ?thesis
    by (simp add: doUpdate_def r iterationsRun_def)
qed

text \<open>An iteration whose detection adds one contact at time 0 to the one pair.\<close>

lemma newContact_step:
  "loopBody (detectsContacts [Fin 0]) ef dt
     \<lparr>toi = t, localToi = lt, ccdPairs = [ccdPair []], lastState = (), events = es\<rparr>
   = (let t' = accumulateToi t lt; e = epsilonOf t' ef; lt' = Fin 0 + e in
      (t' > 1,
       \<lparr>toi = t', localToi = lt', ccdPairs = [ccdPair []], lastState = (),
        events = es @ [UpdateCcdData lt, CcdCollision, FilterContacts e True,
          ConstraintGeneration, BuildMlcp, SolveMlcp, PushResults, ClearContacts]\<rparr>))"
  by (simp add: loop_defs Let_def DBL_MAX_def)

text \<open>
  C2. With the default budget of 20 iterations and a detection that produces a new
  contact in every iteration (the filter never reports no impact, and the accumulated
  time of impact ends at the double 0.18000000000000002), the body of the loop runs 19
  times, not 20; the loop then ends and the warning is logged.
\<close>

theorem doUpdate_runs_one_iteration_less:
  "iterationsRun (events (doUpdate (detectsContacts [Fin 0]) 20 (Fin 100) (lit (1/1000)) [ccdPair []] ())) = 19
   \<and> filter isNoImpact (events (doUpdate (detectsContacts [Fin 0]) 20 (Fin 100) (lit (1/1000)) [ccdPair []] ())) = []
   \<and> toi (doUpdate (detectsContacts [Fin 0]) 20 (Fin 100) (lit (1/1000)) [ccdPair []] ())
       = Fin (6485183463413515 / 2 ^ 55)
   \<and> last (events (doUpdate (detectsContacts [Fin 0]) 20 (Fin 100) (lit (1/1000)) [ccdPair []] ())) = MaxedOutWarning"
proof -
  have "let r = doUpdate (detectsContacts [Fin 0]) 20 (Fin 100) (lit (1/1000)) [ccdPair []] () in
      iterationsRun (events r) = 19 \<and> filter isNoImpact (events r) = []
      \<and> toi r = Fin (6485183463413515 / 2 ^ 55) \<and> last (events r) = MaxedOutWarning"
    by (simp add: doUpdate_def initialVars_def selectCcdPairs_ccdPair ccdLoop.simps newContact_step
        iterationsRun_def accumulateToi_def epsilonOf_def double_defs Let_double Let_pair Let_vars
        cong: let_weak_cong)
  then show ?thesis by (simp only: Let_def)
qed

text \<open>
  C3. In an iteration whose detection yields a contact the filter finds (one with a time
  below the largest double): the accumulated time of impact is
  \<open>toi + (1 - toi) * localToi\<close>; epsilon is \<open>1 / ((1 - accumulatedToi) * epsilonFactor)\<close>;
  the earliest contact time is the least of the contact times; the filter reports the
  earliest contact time plus epsilon and leaves on every pair exactly the contacts whose
  time does not exceed it (for numbers: whose time is at most it); the contacts that are
  left are what the constraint generation is given, and the state and the pairs after the
  iteration are those the four computations yield, the pairs cleared; the next iteration
  accumulates with the time the filter reported.
\<close>

theorem loopBody_filters_and_accumulates:
  assumes "ccdCollision cs dt (updateCcdData cs (localToi v) (ccdPairs v, lastState v)) = (detected, s)"
    and "\<exists>c \<in> set (allContacts detected). time c < Fin DBL_MAX"
  shows "let accumulatedToi = toi v + (1 - toi v) * localToi v;
             epsilon = 1 / ((1 - accumulatedToi) * epsilonFactor);
             earliest = earliestContactTime detected;
             threshold = earliest + epsilon;
             accepted = map (\<lambda>pair. pair\<lparr>contacts := filter (\<lambda>c. \<not> time c > threshold) (contacts pair)\<rparr>)
               detected;
             resolved = pushResults cs dt (solveMlcp cs dt (buildMlcp cs dt
               (constraintGeneration cs dt (accepted, s))))
         in earliest \<in> time ` set (allContacts detected)
            \<and> (\<forall>c \<in> set (allContacts detected). \<not> time c < earliest)
            \<and> filterContacts detected epsilon (localToi v) = (True, accepted, threshold)
            \<and> allContacts accepted = filter (\<lambda>c. \<not> time c > threshold) (allContacts detected)
            \<and> (\<forall>c \<in> set (allContacts detected). time c \<noteq> NaN \<and> threshold \<noteq> NaN \<longrightarrow>
                  (c \<in> set (allContacts accepted) \<longleftrightarrow> time c \<le> threshold))
            \<and> loopBody cs epsilonFactor dt v
                = (accumulatedToi > 1,
                   v\<lparr>toi := accumulatedToi, localToi := threshold,
                     ccdPairs := clearContacts (fst resolved), lastState := snd resolved,
                     events := events v @ [UpdateCcdData (localToi v), CcdCollision,
                       FilterContacts epsilon True,
                       ConstraintGeneration, BuildMlcp, SolveMlcp, PushResults, ClearContacts]\<rparr>)
            \<and> toi (snd (loopBody cs epsilonFactor dt (snd (loopBody cs epsilonFactor dt v))))
                = accumulatedToi + (1 - accumulatedToi) * threshold"
proof -
  let ?a = "accumulateToi (toi v) (localToi v)"
  let ?e = "epsilonOf ?a epsilonFactor"
  let ?m = "earliestContactTime detected"
  have lt: "?m < Fin DBL_MAX" using assms(2) unfolding earliest_found_iff .
  note f = filterContacts_found[OF refl lt, of ?e "localToi v"]
  note b = loopBody_found[OF assms(1) lt, of epsilonFactor]
  have mem: "?m \<in> time ` set (allContacts detected)"
    and lb: "\<forall>c \<in> set (allContacts detected). \<not> time c < ?m"
    using earliest_char[of detected] lt by (auto simp: Let_def less_double_irrefl)
  have le: "time c \<noteq> NaN \<and> thr \<noteq> NaN \<Longrightarrow> (\<not> time c > thr) = (time c \<le> thr)" for c :: Contact and thr
    by (cases "time c"; cases thr) auto
  have acc: "allContacts (removeLaterContacts (?m + ?e) detected)
      = filter (\<lambda>c. \<not> time c > ?m + ?e) (allContacts detected)"
    by (rule allContacts_removeLaterContacts)
  have exact: "\<forall>c \<in> set (allContacts detected). time c \<noteq> NaN \<and> ?m + ?e \<noteq> NaN \<longrightarrow>
      (c \<in> set (allContacts (removeLaterContacts (?m + ?e) detected)) \<longleftrightarrow> time c \<le> ?m + ?e)"
    unfolding acc using le by auto
  have toi1: "toi (snd (loopBody cs epsilonFactor dt v)) = ?a"
    and lt1: "localToi (snd (loopBody cs epsilonFactor dt v)) = ?m + ?e"
    unfolding b by simp_all
  have next_toi: "toi (snd (loopBody cs epsilonFactor dt (snd (loopBody cs epsilonFactor dt v))))
      = accumulateToi ?a (?m + ?e)"
    unfolding loopBody_toi [of cs epsilonFactor dt "snd (loopBody cs epsilonFactor dt v)"] toi1 lt1 ..
  from mem lb f acc exact b next_toi show ?thesis
    unfolding Let_def accumulateToi_def epsilonOf_def removeLaterContacts_def
    by (intro conjI)
qed

theorem loopBody_filters_and_accumulates_witness:
  "ccdCollision (remembersContacts [lit (1/10), lit (2/10), lit (3/10)]) (lit (1/1000))
       (updateCcdData (remembersContacts [lit (1/10), lit (2/10), lit (3/10)])
          (localToi (initialVars [ccdPair []] []))
          (ccdPairs (initialVars [ccdPair []] []), lastState (initialVars [ccdPair []] [])))
     = ([ccdPair [ccdContact (lit (1/10)), ccdContact (lit (2/10)), ccdContact (lit (3/10))]], [])
   \<and> (\<exists>c \<in> set (allContacts [ccdPair [ccdContact (lit (1/10)), ccdContact (lit (2/10)),
          ccdContact (lit (3/10))]]). time c < Fin DBL_MAX)
   \<and> loopBody (remembersContacts [lit (1/10), lit (2/10), lit (3/10)]) (Fin 100) (lit (1/1000))
         (initialVars [ccdPair []] [])
       = (False, \<lparr>toi = Fin 0, localToi = lit (11/100), ccdPairs = [ccdPair []],
            lastState = [lit (1/10)],
            events = [UpdateCcdData (Fin 0), CcdCollision, FilterContacts (lit (1/100)) True,
              ConstraintGeneration, BuildMlcp, SolveMlcp, PushResults, ClearContacts]\<rparr>)"
proof -
  have d: "ccdCollision (remembersContacts [lit (1/10), lit (2/10), lit (3/10)]) (lit (1/1000))
       (updateCcdData (remembersContacts [lit (1/10), lit (2/10), lit (3/10)])
          (localToi (initialVars [ccdPair []] []))
          (ccdPairs (initialVars [ccdPair []] []), lastState (initialVars [ccdPair []] [])))
     = ([ccdPair [ccdContact (lit (1/10)), ccdContact (lit (2/10)), ccdContact (lit (3/10))]], [])"
    by (simp add: remembersContacts_def initialVars_def selectCcdPairs_ccdPair) (simp add: ccdPair_def)
  have h: "\<exists>c \<in> set (allContacts [ccdPair [ccdContact (lit (1/10)), ccdContact (lit (2/10)),
          ccdContact (lit (3/10))]]). time c < Fin DBL_MAX"
    by (simp add: allContacts_def ccdPair_def ccdContact_def literals DBL_MAX_def)
  note t = loopBody_filters_and_accumulates [OF d h, of "Fin 100", unfolded Let_def]
  from t [THEN conjunct2, THEN conjunct2, THEN conjunct2, THEN conjunct2, THEN conjunct2, THEN conjunct1]
  have "loopBody (remembersContacts [lit (1/10), lit (2/10), lit (3/10)]) (Fin 100) (lit (1/1000))
         (initialVars [ccdPair []] [])
       = (False, \<lparr>toi = Fin 0, localToi = lit (11/100), ccdPairs = [ccdPair []],
            lastState = [lit (1/10)],
            events = [UpdateCcdData (Fin 0), CcdCollision, FilterContacts (lit (1/100)) True,
              ConstraintGeneration, BuildMlcp, SolveMlcp, PushResults, ClearContacts]\<rparr>)"
    by (simp add: loop_eval DBL_MAX_def cong: let_weak_cong)
  with d h show ?thesis by (intro conjI)
qed




text \<open>
  When the first detection yields no contact, \<^verbatim>\<open>doUpdate\<close> calls the update of the
  data, the detection and the filter once and nothing else, and the state is the one the
  detection left; with a budget of 1 no iteration runs and only the warning is logged.
\<close>

lemma doUpdate_no_impact:
  assumes "ccdCollision cs dt (updateCcdData cs (Fin 0) (selectCcdPairs collisionPairs, state))
           = (detected, s)"
    and "\<not> (\<exists>c \<in> set (allContacts detected). time c < Fin DBL_MAX)"
  shows "doUpdate cs maxIterations epsilonFactor dt collisionPairs state
         = (if maxIterations - 1 > 0
            then \<lparr>toi = Fin 0, localToi = Fin 0, ccdPairs = detected, lastState = s,
                   events = [UpdateCcdData (Fin 0), CcdCollision,
                     FilterContacts (epsilonOf (Fin 0) epsilonFactor) False]\<rparr>
            else \<lparr>toi = Fin 0, localToi = Fin 0, ccdPairs = selectCcdPairs collisionPairs,
                   lastState = state, events = [MaxedOutWarning]\<rparr>)"
proof (cases "maxIterations - 1 > 0")
  case True
  let ?v = "initialVars collisionPairs state"
  have a: "accumulateToi (Fin 0) (Fin 0) = Fin 0"
    by (simp add: accumulateToi_def double_defs)
  have d: "ccdCollision cs dt (updateCcdData cs (localToi ?v) (ccdPairs ?v, lastState ?v)) = (detected, s)"
    using assms(1) by (simp add: initialVars_def)
  have nf: "\<not> fst (filterContacts detected (epsilonOf (accumulateToi (toi ?v) (localToi ?v)) epsilonFactor)
      (localToi ?v))"
    using assms(2) unfolding filterContacts_false_iff .
  note b = loopBody_not_found [OF d nf]
  have "fst (loopBody cs epsilonFactor dt ?v)"
    unfolding b by simp
  moreover from True have "maxIterations - 1 \<noteq> 0" by auto
  ultimately show ?thesis
    using ccdLoop_break [OF True, of cs epsilonFactor dt ?v] True
    unfolding doUpdate_def Let_def b
    by (simp add: initialVars_def a)
next
  case False
  then have "maxIterations - 1 = 0"
    using word_neq_0_conv [of "maxIterations - 1"] by blast
  then show ?thesis
    unfolding doUpdate_def Let_def ccdLoop_done [OF False] using False by (simp add: initialVars_def)
qed

text \<open>
  C5. On pairs whose contacts have times in \<open>[0, 1]\<close>, as the invariant of a contact
  says, the filter returns false if and only if there is no contact. When it returns
  false, the pairs and the value behind \<^verbatim>\<open>currentToi\<close> are as they were. In the loop
  a false return ends the loop in that iteration, by \<^verbatim>\<open>break\<close> right after the filter:
  the state and the pairs are those the detection left, and there is no constraint
  generation, build, solve or push. When the first detection yields no contact,
  \<^verbatim>\<open>doUpdate\<close> ends in its first iteration in this way (with a budget of 1 no
  iteration runs at all and only the warning is logged).
\<close>

theorem filterContacts_no_impact:
  assumes "\<forall>c \<in> set (allContacts ps). inUnitInterval (time c)"
  shows "(\<not> fst (filterContacts ps epsilon ct) \<longleftrightarrow> allContacts ps = [])
   \<and> (\<not> fst (filterContacts ps epsilon ct) \<longrightarrow> filterContacts ps epsilon ct = (False, ps, ct))
   \<and> (iterations - 1 > 0
        \<and> ccdCollision cs dt (updateCcdData cs (localToi v) (ccdPairs v, lastState v)) = (detected, s)
        \<and> \<not> fst (filterContacts detected
                   (1 / ((1 - (toi v + (1 - toi v) * localToi v)) * epsilonFactor)) (localToi v))
      \<longrightarrow>
        ccdLoop cs epsilonFactor dt iterations v
          = (iterations - 1,
             v\<lparr>toi := toi v + (1 - toi v) * localToi v, ccdPairs := detected, lastState := s,
               events := events v @ [UpdateCcdData (localToi v), CcdCollision,
                 FilterContacts (1 / ((1 - (toi v + (1 - toi v) * localToi v)) * epsilonFactor)) False]\<rparr>))
   \<and> (ccdCollision cs dt (updateCcdData cs (Fin 0) (selectCcdPairs collisionPairs, state))
          = (firstDetected, firstState)
        \<and> allContacts firstDetected = []
      \<longrightarrow>
        doUpdate cs maxIterations epsilonFactor dt collisionPairs state
         = (if maxIterations - 1 > 0
            then \<lparr>toi = Fin 0, localToi = Fin 0, ccdPairs = firstDetected, lastState = firstState,
                   events = [UpdateCcdData (Fin 0), CcdCollision,
                     FilterContacts (1 / ((1 - Fin 0) * epsilonFactor)) False]\<rparr>
            else \<lparr>toi = Fin 0, localToi = Fin 0, ccdPairs = selectCcdPairs collisionPairs,
                   lastState = state, events = [MaxedOutWarning]\<rparr>))"
proof (intro conjI impI)
  have below: "time c < Fin DBL_MAX" if "c \<in> set (allContacts ps)" for c
    using assms that by (auto intro: inUnitInterval_less_DBL_MAX)
  show "(\<not> fst (filterContacts ps epsilon ct)) = (allContacts ps = [])"
    unfolding filterContacts_false_iff using below by (cases "allContacts ps") auto
  show "filterContacts ps epsilon ct = (False, ps, ct)" if "\<not> fst (filterContacts ps epsilon ct)"
    using that by (rule filterContacts_false_unchanged)
  show "ccdLoop cs epsilonFactor dt iterations v
          = (iterations - 1,
             v\<lparr>toi := toi v + (1 - toi v) * localToi v, ccdPairs := detected, lastState := s,
               events := events v @ [UpdateCcdData (localToi v), CcdCollision,
                 FilterContacts (1 / ((1 - (toi v + (1 - toi v) * localToi v)) * epsilonFactor)) False]\<rparr>)"
    if a: "iterations - 1 > 0
        \<and> ccdCollision cs dt (updateCcdData cs (localToi v) (ccdPairs v, lastState v)) = (detected, s)
        \<and> \<not> fst (filterContacts detected
                   (1 / ((1 - (toi v + (1 - toi v) * localToi v)) * epsilonFactor)) (localToi v))"
  proof -
    from a have budget: "iterations - 1 > 0"
      and d: "ccdCollision cs dt (updateCcdData cs (localToi v) (ccdPairs v, lastState v)) = (detected, s)"
      and nf: "\<not> fst (filterContacts detected
        (epsilonOf (accumulateToi (toi v) (localToi v)) epsilonFactor) (localToi v))"
      by (simp_all add: accumulateToi_def epsilonOf_def)
    note b = loopBody_not_found [OF d nf]
    from ccdLoop_break [OF budget, of cs epsilonFactor dt v] show ?thesis
      unfolding b by (simp add: accumulateToi_def epsilonOf_def)
  qed
  show "doUpdate cs maxIterations epsilonFactor dt collisionPairs state
         = (if maxIterations - 1 > 0
            then \<lparr>toi = Fin 0, localToi = Fin 0, ccdPairs = firstDetected, lastState = firstState,
                   events = [UpdateCcdData (Fin 0), CcdCollision,
                     FilterContacts (1 / ((1 - Fin 0) * epsilonFactor)) False]\<rparr>
            else \<lparr>toi = Fin 0, localToi = Fin 0, ccdPairs = selectCcdPairs collisionPairs,
                   lastState = state, events = [MaxedOutWarning]\<rparr>)"
    if a: "ccdCollision cs dt (updateCcdData cs (Fin 0) (selectCcdPairs collisionPairs, state))
          = (firstDetected, firstState)
        \<and> allContacts firstDetected = []"
  proof -
    from a have d: "ccdCollision cs dt (updateCcdData cs (Fin 0) (selectCcdPairs collisionPairs, state))
          = (firstDetected, firstState)"
      and "\<not> (\<exists>c \<in> set (allContacts firstDetected). time c < Fin DBL_MAX)"
      by simp_all
    from doUpdate_no_impact [OF this, of maxIterations epsilonFactor] show ?thesis
      by (simp add: epsilonOf_def)
  qed
qed

text \<open>
  The detection that yields nothing, on one pair: the filter returns false and changes
  nothing, and \<^verbatim>\<open>doUpdate\<close> with the default budget and factor ends after the update of
  the data, the detection and the filter of its first iteration. On a pair with one
  contact, at time \<open>1/2\<close>, the filter returns true.
\<close>

theorem filterContacts_no_impact_witness:
  "allContacts [ccdPair []] = []
   \<and> filterContacts [ccdPair []] (lit (1/100)) (Fin 7) = (False, [ccdPair []], Fin 7)
   \<and> ccdCollision (detectsContacts []) (lit (1/1000))
        (updateCcdData (detectsContacts []) (Fin 0) (selectCcdPairs [ccdPair []], ()))
      = ([ccdPair []], ())
   \<and> doUpdate (detectsContacts []) 20 (Fin 100) (lit (1/1000)) [ccdPair []] ()
       = \<lparr>toi = Fin 0, localToi = Fin 0, ccdPairs = [ccdPair []], lastState = (),
          events = [UpdateCcdData (Fin 0), CcdCollision, FilterContacts (lit (1/100)) False]\<rparr>
   \<and> ccdLoop (detectsContacts []) (Fin 100) (lit (1/1000)) 20 (initialVars [ccdPair []] ())
       = (19, \<lparr>toi = Fin 0, localToi = Fin 0, ccdPairs = [ccdPair []], lastState = (),
          events = [UpdateCcdData (Fin 0), CcdCollision, FilterContacts (lit (1/100)) False]\<rparr>)
   \<and> allContacts [ccdPair [ccdContact (Fin (1/2))]] = [ccdContact (Fin (1/2))]
   \<and> inUnitInterval (time (ccdContact (Fin (1/2))))
   \<and> fst (filterContacts [ccdPair [ccdContact (Fin (1/2))]] (lit (1/100)) (Fin 7))"
proof -
  let ?v = "initialVars [ccdPair []] ()"
  have none: "allContacts [ccdPair []] = []"
    by (simp add: allContacts_def ccdPair_def)
  then have h1: "\<forall>c \<in> set (allContacts [ccdPair []]). inUnitInterval (time c)"
    by simp
  have one: "allContacts [ccdPair [ccdContact (Fin (1/2))]] = [ccdContact (Fin (1/2))]"
    by (simp add: allContacts_def ccdPair_def)
  have unit: "inUnitInterval (time (ccdContact (Fin (1/2))))"
    by (simp add: ccdContact_def inUnitInterval_def)
  with one have h2: "\<forall>c \<in> set (allContacts [ccdPair [ccdContact (Fin (1/2))]]). inUnitInterval (time c)"
    by simp
  have d: "ccdCollision (detectsContacts []) (lit (1/1000))
        (updateCcdData (detectsContacts []) (Fin 0) (selectCcdPairs [ccdPair []], ()))
      = ([ccdPair []], ())"
    by (simp add: detectsContacts_def selectCcdPairs_def ccdPair_def)
  then have d': "ccdCollision (detectsContacts []) (lit (1/1000))
        (updateCcdData (detectsContacts []) (localToi ?v) (ccdPairs ?v, lastState ?v))
      = ([ccdPair []], ())"
    by (simp add: initialVars_def)
  have budget: "(20 :: size_t) - 1 > 0"
    by simp
  note t = filterContacts_no_impact [OF h1, of _ _ 20 "detectsContacts []" "lit (1/1000)" ?v
      "[ccdPair []]" "()" "Fin 100" "[ccdPair []]" "()" "[ccdPair []]" "()" 20]
  from t [of "lit (1/100)" "Fin 7"] none
  have a: "filterContacts [ccdPair []] (lit (1/100)) (Fin 7) = (False, [ccdPair []], Fin 7)"
    by blast
  from t [of "1 / ((1 - (toi ?v + (1 - toi ?v) * localToi ?v)) * Fin 100)" "localToi ?v"] none
  have "\<not> fst (filterContacts [ccdPair []]
      (1 / ((1 - (toi ?v + (1 - toi ?v) * localToi ?v)) * Fin 100)) (localToi ?v))"
    by blast
  with t [of "lit (1/100)" "Fin 7"] budget d'
  have "ccdLoop (detectsContacts []) (Fin 100) (lit (1/1000)) 20 ?v
          = (20 - 1,
             ?v\<lparr>toi := toi ?v + (1 - toi ?v) * localToi ?v, ccdPairs := [ccdPair []], lastState := (),
               events := events ?v @ [UpdateCcdData (localToi ?v), CcdCollision,
                 FilterContacts (1 / ((1 - (toi ?v + (1 - toi ?v) * localToi ?v)) * Fin 100)) False]\<rparr>)"
    by blast
  then have b: "ccdLoop (detectsContacts []) (Fin 100) (lit (1/1000)) 20 ?v
       = (19, \<lparr>toi = Fin 0, localToi = Fin 0, ccdPairs = [ccdPair []], lastState = (),
          events = [UpdateCcdData (Fin 0), CcdCollision, FilterContacts (lit (1/100)) False]\<rparr>)"
    by (simp add: initialVars_def selectCcdPairs_ccdPair double_defs cong: let_weak_cong)
  from t [of "lit (1/100)" "Fin 7"] d none
  have "doUpdate (detectsContacts []) 20 (Fin 100) (lit (1/1000)) [ccdPair []] ()
         = (if (20 :: size_t) - 1 > 0
            then \<lparr>toi = Fin 0, localToi = Fin 0, ccdPairs = [ccdPair []], lastState = (),
                   events = [UpdateCcdData (Fin 0), CcdCollision,
                     FilterContacts (1 / ((1 - Fin 0) * Fin 100)) False]\<rparr>
            else \<lparr>toi = Fin 0, localToi = Fin 0, ccdPairs = selectCcdPairs [ccdPair []],
                   lastState = (), events = [MaxedOutWarning]\<rparr>)"
    by blast
  then have c: "doUpdate (detectsContacts []) 20 (Fin 100) (lit (1/1000)) [ccdPair []] ()
       = \<lparr>toi = Fin 0, localToi = Fin 0, ccdPairs = [ccdPair []], lastState = (),
          events = [UpdateCcdData (Fin 0), CcdCollision, FilterContacts (lit (1/100)) False]\<rparr>"
    by (simp add: double_defs cong: let_weak_cong)
  from filterContacts_no_impact [OF h2, of "lit (1/100)" "Fin 7", THEN conjunct1] one
  have e: "fst (filterContacts [ccdPair [ccdContact (Fin (1/2))]] (lit (1/100)) (Fin 7))"
    by simp
  from none a d c b one unit e show ?thesis
    by (intro conjI)
qed

section \<open>Properties of the mesh-mesh calculator\<close>

lemma Let_location: "Let (l :: Location) f = f l"
  by simp

lemmas vec_defs = vec_def edgeA0_def edgeA1_def apexA_def edgeB0_def edgeB1_def apexB_def
  restA0_def restA1_def restApex_def flatTriangle_def uprightTriangle_def

lemmas mesh_defs = calculateCcdContact_def ccdTriangle1_def ccdTriangle2_def trianglePairContact_def
  triangleMotion_def vertexMotion_def getVertexPosition_def getTriangle_def getNumTriangles_def readAt_def
  sweptAabb_def emptyAabb_def std_min_def std_max_def
  findImpact_def sweptTests_def considerTest_def noCandidate_def segmentSegmentFound_def pointTriangleFound_def
  impactAtTime0_def degenerateWarnings_def isDegenerate_def norm3_def barycentricInRange_def deq_def
  makeCcdContact_def pointT1_def pointT2_def pointAtTime1_def contactNormal_def normalized_def triangleLocation_def
  transformPoint_def inverseTransform_def identityTransform_def Vector3d_Zero_def
  exampleGeometry_def meshOf_def movingShapeAt_def hangingShapeAt_def crossingEdges_def
  crossingContact_def touchingContact_def vec_defs double_defs
  upt_conv_Cons Let_double Let_pair Let_location

lemma collect_contact:
  assumes "collect f xs = Inr (ws, cs)" "c \<in> set cs"
  shows "\<exists>x \<in> set xs. \<exists>ws' cs'. f x = Inr (ws', cs') \<and> c \<in> set cs'"
  using assms
proof (induction xs arbitrary: ws cs)
  case Nil
  then show ?case by simp
next
  case (Cons x xs)
  from Cons.prems(1) obtain ws1 cs1 ws2 cs2 where
    fx: "f x = Inr (ws1, cs1)" and rest: "collect f xs = Inr (ws2, cs2)" and cs: "cs = cs1 @ cs2"
    by (auto split: sum.splits)
  from Cons.prems(2) cs consider "c \<in> set cs1" | "c \<in> set cs2" by auto
  then show ?case
  proof cases
    case 1
    with fx show ?thesis by auto
  next
    case 2
    from Cons.IH[OF rest 2] show ?thesis by auto
  qed
qed

lemma collect_cong:
  assumes "\<And>x. x \<in> set xs \<Longrightarrow> f x = h x"
  shows "collect f xs = collect h xs"
  using assms
proof (induction xs)
  case Nil
  show ?case by simp
next
  case (Cons x xs)
  have "f x = h x" using Cons.prems by simp
  moreover have "collect f xs = collect h xs" using Cons by simp
  ultimately show ?case by (simp split: sum.splits)
qed

lemma triangleMotion_verticesId:
  assumes "verticesId t0 = verticesId t0'" "verticesId t1 = verticesId t1'"
  shows "triangleMotion m0 m1 t0 t1 = triangleMotion m0 m1 t0' t1'"
  using assms by (simp add: triangleMotion_def)

lemma trianglePairContact_contact:
  assumes "trianglePairContact g pose2AtTime1 triangleId t1v0 t1v1 t1v2 t2v0 t2v1 t2v2 = Inr (ws, cs)"
    and "c \<in> set cs"
  shows "c = makeCcdContact pose2AtTime1 triangleId (snd (findImpact g t1v0 t1v1 t1v2 t2v0 t2v1 t2v2))
               t1v0 t1v1 t1v2 t2v0 t2v1 t2v2
         \<and> \<not> deq (earliestTimeOfImpact (snd (findImpact g t1v0 t1v1 t1v2 t2v0 t2v1 t2v2))) (Fin DBL_MAX)"
  using assms by (auto simp: trianglePairContact_def split: prod.splits if_splits)

text \<open>Every contact of the continuous detection is the contact of a pair of triangles.\<close>

lemma calculateCcdContact_contact:
  assumes "calculateCcdContact g shape1AtTime0 pose1AtTime0 shape1AtTime1 pose1AtTime1
       shape2AtTime0 pose2AtTime0 shape2AtTime1 pose2AtTime1 = Inr (ws, cs)"
    and "c \<in> set cs"
  shows "\<exists>triangle1Id triangleId triangle1T0 triangle1T1 triangle2T0 triangle2T1
           t1v0 t1v1 t1v2 t2v0 t2v1 t2v2.
           triangle1Id < getNumTriangles shape1AtTime0
           \<and> getTriangle shape1AtTime0 triangle1Id = Inr triangle1T0
           \<and> getTriangle shape1AtTime1 triangle1Id = Inr triangle1T1
           \<and> triangleMotion shape2AtTime0 shape2AtTime1 triangle1T0 triangle1T1 = Inr (t1v0, t1v1, t1v2)
           \<and> triangleId < getNumTriangles shape2AtTime0
           \<and> getTriangle shape2AtTime0 triangleId = Inr triangle2T0
           \<and> getTriangle shape2AtTime1 triangleId = Inr triangle2T1
           \<and> triangleMotion shape2AtTime0 shape2AtTime1 triangle2T0 triangle2T1 = Inr (t2v0, t2v1, t2v2)
           \<and> doAabbIntersect g (sweptAabb t1v0 t1v1 t1v2) (sweptAabb t2v0 t2v1 t2v2)
           \<and> c = makeCcdContact pose2AtTime1 triangleId
                   (snd (findImpact g t1v0 t1v1 t1v2 t2v0 t2v1 t2v2)) t1v0 t1v1 t1v2 t2v0 t2v1 t2v2
           \<and> \<not> deq (earliestTimeOfImpact (snd (findImpact g t1v0 t1v1 t1v2 t2v0 t2v1 t2v2)))
                   (Fin DBL_MAX)"
proof -
  from assms(1) have run: "collect (ccdTriangle1 g shape1AtTime0 shape1AtTime1 shape2AtTime0 shape2AtTime1
      pose2AtTime1) [0 ..< getNumTriangles shape1AtTime0] = Inr (ws, cs)"
    by (simp add: calculateCcdContact_def split: if_splits)
  from collect_contact[OF run assms(2)] obtain triangle1Id ws1 cs1 where
    id1: "triangle1Id < getNumTriangles shape1AtTime0"
    and r1: "ccdTriangle1 g shape1AtTime0 shape1AtTime1 shape2AtTime0 shape2AtTime1 pose2AtTime1 triangle1Id
             = Inr (ws1, cs1)"
    and c1: "c \<in> set cs1"
    by auto
  from r1 obtain triangle1T0 triangle1T1 t1v0 t1v1 t1v2 where
    t10: "getTriangle shape1AtTime0 triangle1Id = Inr triangle1T0"
    and t11: "getTriangle shape1AtTime1 triangle1Id = Inr triangle1T1"
    and m1: "triangleMotion shape2AtTime0 shape2AtTime1 triangle1T0 triangle1T1 = Inr (t1v0, t1v1, t1v2)"
    and run2: "collect (ccdTriangle2 g shape2AtTime0 shape2AtTime1 pose2AtTime1 t1v0 t1v1 t1v2)
                 [0 ..< getNumTriangles shape2AtTime0] = Inr (ws1, cs1)"
    by (auto simp: ccdTriangle1_def split: sum.splits if_splits prod.splits)
  from collect_contact[OF run2 c1] obtain triangleId ws2 cs2 where
    id2: "triangleId < getNumTriangles shape2AtTime0"
    and r2: "ccdTriangle2 g shape2AtTime0 shape2AtTime1 pose2AtTime1 t1v0 t1v1 t1v2 triangleId = Inr (ws2, cs2)"
    and c2: "c \<in> set cs2"
    by auto
  from r2 c2 obtain triangle2T0 triangle2T1 t2v0 t2v1 t2v2 where
    t20: "getTriangle shape2AtTime0 triangleId = Inr triangle2T0"
    and t21: "getTriangle shape2AtTime1 triangleId = Inr triangle2T1"
    and m2: "triangleMotion shape2AtTime0 shape2AtTime1 triangle2T0 triangle2T1 = Inr (t2v0, t2v1, t2v2)"
    and box: "doAabbIntersect g (sweptAabb t1v0 t1v1 t1v2) (sweptAabb t2v0 t2v1 t2v2)"
    and r3: "trianglePairContact g pose2AtTime1 triangleId t1v0 t1v1 t1v2 t2v0 t2v1 t2v2 = Inr (ws2, cs2)"
    by (auto simp: ccdTriangle2_def split: sum.splits if_splits prod.splits)
  from trianglePairContact_contact[OF r3 c2] id1 t10 t11 m1 id2 t20 t21 m2 box
  show ?thesis by blast
qed

lemma makeCcdContact_rigidLocalPosition:
  "rigidLocalPosition (fst (penetrationPoints (makeCcdContact pose2AtTime1 triangleId c t1v0 t1v1 t1v2 t2v0 t2v1 t2v2)))
     = Some (transformPoint (inverseTransform pose2AtTime1) (pointT1 c t1v0 t1v1 t1v2))"
  "rigidLocalPosition (snd (penetrationPoints (makeCcdContact pose2AtTime1 triangleId c t1v0 t1v1 t1v2 t2v0 t2v1 t2v2)))
     = Some (transformPoint (inverseTransform pose2AtTime1) (pointT1 c t1v0 t1v1 t1v2))"
  by (simp_all add: makeCcdContact_def Let_def triangleLocation_def)

lemma foldl_considerTest_char:
  assumes sets: "\<forall>test \<in> set tests. fromTestValues (snd test)"
    and unit: "\<forall>test \<in> set tests. reportsTimeInUnitInterval (fst test)"
    and c0: "earliestTimeOfImpact c0 = Fin DBL_MAX"
  shows "if \<forall>test \<in> set tests. fst test = None then foldl considerTest c0 tests = c0
         else \<exists>k < length tests. \<exists>t a b. fst (tests ! k) = Some (t, a, b)
                \<and> inUnitInterval t
                \<and> (\<forall>j < length tests. \<forall>t' a' b'. fst (tests ! j) = Some (t', a', b') \<longrightarrow>
                      t \<le> t' \<and> (j < k \<longrightarrow> t < t'))
                \<and> earliestTimeOfImpact (foldl considerTest c0 tests) = t
                \<and> coordinatesOf (foldl considerTest c0 tests)
                    = coordinatesOf (snd (tests ! k) t a b noCandidate)"
  using sets unit
proof (induction tests rule: rev_induct)
  case Nil
  show ?case by simp
next
  case (snoc x tests)
  let ?c = "foldl considerTest c0 tests"
  have sets': "\<forall>test \<in> set tests. fromTestValues (snd test)"
    using snoc.prems(1) by simp
  have unit': "\<forall>test \<in> set tests. reportsTimeInUnitInterval (fst test)"
    using snoc.prems(2) by simp
  note IH = snoc.IH[OF sets' unit']
  obtain r assign where x: "x = (r, assign)" by (cases x)
  have "fromTestValues assign" using snoc.prems(1) x by simp
  then have setx: "\<And>t a b c. earliestTimeOfImpact (assign t a b c) = t
            \<and> coordinatesOf (assign t a b c) = coordinatesOf (assign t a b noCandidate)"
    unfolding fromTestValues_def by blast
  show ?case
  proof (cases r)
    case None
    then have step: "foldl considerTest c0 (tests @ [x]) = ?c"
      by (simp add: x considerTest_def)
    show ?thesis
    proof (cases "\<forall>test \<in> set tests. fst test = None")
      case True
      with IH None x step show ?thesis by simp
    next
      case False
      with IH obtain k t a b where k: "k < length tests" "fst (tests ! k) = Some (t, a, b)"
        "inUnitInterval t"
        "\<forall>j < length tests. \<forall>t' a' b'. fst (tests ! j) = Some (t', a', b') \<longrightarrow> t \<le> t' \<and> (j < k \<longrightarrow> t < t')"
        "earliestTimeOfImpact ?c = t"
        "coordinatesOf ?c = coordinatesOf (snd (tests ! k) t a b noCandidate)"
        by auto
      have all: "\<forall>j < length (tests @ [x]). \<forall>t' a' b'. fst ((tests @ [x]) ! j) = Some (t', a', b') \<longrightarrow>
                      t \<le> t' \<and> (j < k \<longrightarrow> t < t')"
      proof (intro allI impI)
        fix j t' a' b'
        assume j: "j < length (tests @ [x])" and rep: "fst ((tests @ [x]) ! j) = Some (t', a', b')"
        show "t \<le> t' \<and> (j < k \<longrightarrow> t < t')"
        proof (cases "j < length tests")
          case True
          with rep k(4) show ?thesis by (simp add: nth_append)
        next
          case False
          with j have "j = length tests" by simp
          with rep x None show ?thesis by simp
        qed
      qed
      have "\<not> (\<forall>test \<in> set (tests @ [x]). fst test = None)" using False by simp
      moreover have "k < length (tests @ [x])" using k(1) by simp
      moreover have "fst ((tests @ [x]) ! k) = Some (t, a, b)" using k(1,2) by (simp add: nth_append)
      moreover have "snd ((tests @ [x]) ! k) = snd (tests ! k)" using k(1) by (simp add: nth_append)
      ultimately show ?thesis using k(3,5,6) all step by (simp only: if_False) metis
    qed
  next
    case (Some triple)
    obtain t' a' b' where triple: "triple = (t', a', b')" by (cases triple)
    have u': "inUnitInterval t'"
      using snoc.prems(2) x Some triple by (simp add: reportsTimeInUnitInterval_def)
    then have x': "t' \<le> t'" by (rule inUnitInterval_refl)
    have ne: "\<not> (\<forall>test \<in> set (tests @ [x]). fst test = None)" using x Some by simp
    have lenx: "length tests < length (tests @ [x])" by simp
    have atx: "fst ((tests @ [x]) ! length tests) = Some (t', a', b')" "snd ((tests @ [x]) ! length tests) = assign"
      using x Some triple by simp_all
    show ?thesis
    proof (cases "\<forall>test \<in> set tests. fst test = None")
      case True
      with IH have c: "?c = c0" by simp
      have "t' < earliestTimeOfImpact ?c" unfolding c c0 using u' by (rule inUnitInterval_less_DBL_MAX)
      then have step: "foldl considerTest c0 (tests @ [x]) = assign t' a' b' ?c"
        by (simp add: x Some triple considerTest_def)
      have all: "\<forall>j < length (tests @ [x]). \<forall>t'' a'' b''. fst ((tests @ [x]) ! j) = Some (t'', a'', b'') \<longrightarrow>
                      t' \<le> t'' \<and> (j < length tests \<longrightarrow> t' < t'')"
      proof (intro allI impI)
        fix j t'' a'' b''
        assume j: "j < length (tests @ [x])" and rep: "fst ((tests @ [x]) ! j) = Some (t'', a'', b'')"
        show "t' \<le> t'' \<and> (j < length tests \<longrightarrow> t' < t'')"
        proof (cases "j < length tests")
          case jl: True
          then have "tests ! j \<in> set tests" by simp
          with True have "fst (tests ! j) = None" by blast
          with rep jl show ?thesis by (simp add: nth_append)
        next
          case False
          with j have "j = length tests" by simp
          with rep atx x' show ?thesis by simp
        qed
      qed
      from ne lenx atx u' all step setx show ?thesis
        by (simp only: if_False) metis
    next
      case False
      with IH obtain k t a b where k: "k < length tests" "fst (tests ! k) = Some (t, a, b)"
        "inUnitInterval t"
        "\<forall>j < length tests. \<forall>t' a' b'. fst (tests ! j) = Some (t', a', b') \<longrightarrow> t \<le> t' \<and> (j < k \<longrightarrow> t < t')"
        "earliestTimeOfImpact ?c = t"
        "coordinatesOf ?c = coordinatesOf (snd (tests ! k) t a b noCandidate)"
        by auto
      from k(3) have y: "t \<noteq> NaN" by (rule inUnitInterval_number)
      from u' have y': "t' \<noteq> NaN" by (rule inUnitInterval_number)
      show ?thesis
      proof (cases "t' < t")
        case True
        then have step: "foldl considerTest c0 (tests @ [x]) = assign t' a' b' ?c"
          by (simp add: x Some triple considerTest_def k(5))
        have all: "\<forall>j < length (tests @ [x]). \<forall>t'' a'' b''. fst ((tests @ [x]) ! j) = Some (t'', a'', b'') \<longrightarrow>
                      t' \<le> t'' \<and> (j < length tests \<longrightarrow> t' < t'')"
        proof (intro allI impI)
          fix j t'' a'' b''
          assume j: "j < length (tests @ [x])" and rep: "fst ((tests @ [x]) ! j) = Some (t'', a'', b'')"
          show "t' \<le> t'' \<and> (j < length tests \<longrightarrow> t' < t'')"
          proof (cases "j < length tests")
            case jl: True
            with rep k(4) have "t \<le> t''" by (simp add: nth_append)
            with True have "t' < t''" by (rule less_le_double_trans)
            then show ?thesis by (simp add: less_imp_le_double)
          next
            case False
            with j have "j = length tests" by simp
            with rep atx x' show ?thesis by simp
          qed
        qed
        from ne lenx atx u' all step setx show ?thesis
          by (simp only: if_False) metis
      next
        case nlt: False
        then have step: "foldl considerTest c0 (tests @ [x]) = ?c"
          by (simp add: x Some triple considerTest_def k(5))
        have all: "\<forall>j < length (tests @ [x]). \<forall>t'' a'' b''. fst ((tests @ [x]) ! j) = Some (t'', a'', b'') \<longrightarrow>
                      t \<le> t'' \<and> (j < k \<longrightarrow> t < t'')"
        proof (intro allI impI)
          fix j t'' a'' b''
          assume j: "j < length (tests @ [x])" and rep: "fst ((tests @ [x]) ! j) = Some (t'', a'', b'')"
          show "t \<le> t'' \<and> (j < k \<longrightarrow> t < t'')"
          proof (cases "j < length tests")
            case True
            with rep k(4) show ?thesis by (simp add: nth_append)
          next
            case False
            with j have jl: "j = length tests" by simp
            with rep atx have "t'' = t'" by simp
            with nlt y y' jl k(1) show ?thesis by (simp add: not_less_double)
          qed
        qed
        have "k < length (tests @ [x])" using k(1) by simp
        moreover have "fst ((tests @ [x]) ! k) = Some (t, a, b)" using k(1,2) by (simp add: nth_append)
        moreover have "snd ((tests @ [x]) ! k) = snd (tests ! k)" using k(1) by (simp add: nth_append)
        ultimately show ?thesis using ne k(3,5,6) all step by (simp only: if_False) metis
      qed
    qed
  qed
qed

lemma crossingEdges_apex: "crossingEdges apexA = Inr ([], [crossingContact])"
  by (simp add: mesh_defs cong: let_weak_cong)

lemma crossingEdges_degenerate: "crossingEdges edgeA0 = Inr ([DegenerateTriangleWarning], [crossingContact])"
  by (simp add: mesh_defs cong: let_weak_cong)

lemma isDegenerate_example: "isDegenerate exampleGeometry edgeA0 edgeA1 edgeA0"
  by (simp add: mesh_defs cong: let_weak_cong)

lemmas dcd_defs = piercedTriangle_def piercedContact_def calculateDcdContact_def dcdTriangle_def dcdTrianglePair_def
  getNormal_def getTrianglePositions_def getTriangle_def getVertexPosition_def readAt_def
  flatMesh_def uprightMesh_def meshOf_def exampleGeometry_def vec_defs dummy_precision_def
  transformPoint_def inverseTransform_def identityTransform_def Vector3d_Zero_def double_defs

lemma piercedTriangle_contact: "piercedTriangle = Inr ([], [piercedContact])"
  by (simp add: dcd_defs cong: let_weak_cong)



lemma depthIsNumber_example: "depthIsNumber exampleGeometry"
  by (simp add: depthIsNumber_def exampleGeometry_def)

lemma sweptTests_fromTestValues:
  "\<forall>test \<in> set (sweptTests g t1v0 t1v1 t1v2 t2v0 t2v1 t2v2). fromTestValues (snd test)"
  by (simp add: sweptTests_def fromTestValues_def segmentSegmentFound_def pointTriangleFound_def
      coordinatesOf_def)

lemma sweptTests_unit:
  assumes "rootsInUnitInterval g"
  shows "\<forall>test \<in> set (sweptTests g t1v0 t1v1 t1v2 t2v0 t2v1 t2v2). reportsTimeInUnitInterval (fst test)"
  using assms unfolding rootsInUnitInterval_def
  by (simp add: sweptTests_def del: split_paired_All)

lemma noCandidate_time: "earliestTimeOfImpact noCandidate = Fin DBL_MAX"
  by (simp add: noCandidate_def)

lemmas sweptTests_char =
  foldl_considerTest_char [OF sweptTests_fromTestValues sweptTests_unit noCandidate_time]

lemma findImpact_at_time0:
  assumes "fst (distanceTriangleTriangle g (fst t1v0) (fst t1v1) (fst t1v2) (fst t2v0) (fst t2v1) (fst t2v2)) \<le> Fin 0"
  shows "earliestTimeOfImpact (snd (findImpact g t1v0 t1v1 t1v2 t2v0 t2v1 t2v2)) = Fin 0"
    and "findImpact (g\<lparr>calculateCcdContactSegmentSegment := segmentSegment,
            calculateCcdContactPointTriangle := pointTriangle\<rparr>) t1v0 t1v1 t1v2 t2v0 t2v1 t2v2
         = findImpact g t1v0 t1v1 t1v2 t2v0 t2v1 t2v2"
proof -
  obtain d pt1 pt2 where dist: "distanceTriangleTriangle g (fst t1v0) (fst t1v1) (fst t1v2)
      (fst t2v0) (fst t2v1) (fst t2v2) = (d, pt1, pt2)"
    by (cases "distanceTriangleTriangle g (fst t1v0) (fst t1v1) (fst t1v2) (fst t2v0) (fst t2v1) (fst t2v2)")
  with assms have d: "d \<le> Fin 0" by simp
  show "earliestTimeOfImpact (snd (findImpact g t1v0 t1v1 t1v2 t2v0 t2v1 t2v2)) = Fin 0"
    by (simp add: findImpact_def dist d impactAtTime0_def split: prod.splits)
  show "findImpact (g\<lparr>calculateCcdContactSegmentSegment := segmentSegment,
            calculateCcdContactPointTriangle := pointTriangle\<rparr>) t1v0 t1v1 t1v2 t2v0 t2v1 t2v2
         = findImpact g t1v0 t1v1 t1v2 t2v0 t2v1 t2v2"
    by (simp add: findImpact_def dist d impactAtTime0_def)
qed

lemma findImpact_swept:
  assumes "\<not> fst (distanceTriangleTriangle g (fst t1v0) (fst t1v1) (fst t1v2) (fst t2v0) (fst t2v1) (fst t2v2)) \<le> Fin 0"
  shows "findImpact g t1v0 t1v1 t1v2 t2v0 t2v1 t2v2
         = ([], foldl considerTest noCandidate (sweptTests g t1v0 t1v1 t1v2 t2v0 t2v1 t2v2))"
proof -
  obtain d pt1 pt2 where dist: "distanceTriangleTriangle g (fst t1v0) (fst t1v1) (fst t1v2)
      (fst t2v0) (fst t2v1) (fst t2v2) = (d, pt1, pt2)"
    by (cases "distanceTriangleTriangle g (fst t1v0) (fst t1v1) (fst t1v2) (fst t2v0) (fst t2v1) (fst t2v2)")
  with assms have d: "\<not> d \<le> Fin 0" by simp
  show ?thesis
    by (simp add: findImpact_def dist d)
qed

lemma findImpact_time_unit:
  assumes "rootsInUnitInterval g"
    and "\<not> deq (earliestTimeOfImpact (snd (findImpact g t1v0 t1v1 t1v2 t2v0 t2v1 t2v2))) (Fin DBL_MAX)"
  shows "inUnitInterval (earliestTimeOfImpact (snd (findImpact g t1v0 t1v1 t1v2 t2v0 t2v1 t2v2)))"
proof (cases "fst (distanceTriangleTriangle g (fst t1v0) (fst t1v1) (fst t1v2) (fst t2v0) (fst t2v1) (fst t2v2)) \<le> Fin 0")
  case True
  from findImpact_at_time0(1)[OF True] show ?thesis by (simp add: inUnitInterval_def)
next
  case False
  note sw = findImpact_swept[OF False]
  show ?thesis
  proof (cases "\<forall>test \<in> set (sweptTests g t1v0 t1v1 t1v2 t2v0 t2v1 t2v2). fst test = None")
    case True
    with sweptTests_char[OF assms(1), of t1v0 t1v1 t1v2 t2v0 t2v1 t2v2]
    have "foldl considerTest noCandidate (sweptTests g t1v0 t1v1 t1v2 t2v0 t2v1 t2v2) = noCandidate"
      by simp
    with assms(2) sw show ?thesis by (simp add: noCandidate_def deq_def)
  next
    case False
    with sweptTests_char[OF assms(1), of t1v0 t1v1 t1v2 t2v0 t2v1 t2v2] sw
    show ?thesis by auto
  qed
qed

lemma makeCcdContact_fields:
  "time (makeCcdContact pose2AtTime1 triangleId c t1v0 t1v1 t1v2 t2v0 t2v1 t2v2) = earliestTimeOfImpact c"
  "depth (makeCcdContact pose2AtTime1 triangleId c t1v0 t1v1 t1v2 t2v0 t2v1 t2v2)
     = dot (vsub (pointT2 c t2v0 t2v1 t2v2) (pointT1 c t1v0 t1v1 t1v2))
         (normal (makeCcdContact pose2AtTime1 triangleId c t1v0 t1v1 t1v2 t2v0 t2v1 t2v2))"
  by (simp_all add: makeCcdContact_def Let_def)

lemma dcdTrianglePair_contact:
  assumes "dcdTrianglePair g meshA meshAPose meshB meshBPose i normalA verticesA j = Inr (ws, cs)"
    and "c \<in> set cs"
  shows "\<exists>normalB a0 a1 a2 b0 b1 b2 d pa pb n.
           getNormal meshB j = Inr normalB \<and> \<not> isZero normalB
           \<and> verticesA = (a0, a1, a2)
           \<and> calculateContactTriangleTriangle g a0 a1 a2 b0 b1 b2 normalA normalB = Some (d, pa, pb, n)
           \<and> depth c = \<bar>d\<bar> \<and> time c = Fin 1"
proof -
  obtain a0 a1 a2 where vA: "verticesA = (a0, a1, a2)"
    by (cases verticesA) auto
  from assms(1) obtain normalB where nB: "getNormal meshB j = Inr normalB"
    by (cases "getNormal meshB j") (simp_all add: dcdTrianglePair_def)
  from assms nB have nz: "\<not> isZero normalB"
    by (auto simp: dcdTrianglePair_def)
  from assms(1) nB nz obtain verticesB where vB: "getTrianglePositions meshB j = Inr verticesB"
    by (cases "getTrianglePositions meshB j") (simp_all add: dcdTrianglePair_def)
  obtain b0 b1 b2 where vB': "verticesB = (b0, b1, b2)"
    by (cases verticesB) auto
  from assms nB nz vB vA vB' obtain d pa pb n where
    t: "calculateContactTriangleTriangle g a0 a1 a2 b0 b1 b2 normalA normalB = Some (d, pa, pb, n)"
    by (cases "calculateContactTriangleTriangle g a0 a1 a2 b0 b1 b2 normalA normalB")
      (auto simp: dcdTrianglePair_def)
  from assms nB nz vB vA vB' t have "depth c = \<bar>d\<bar> \<and> time c = Fin 1"
    by (auto simp: dcdTrianglePair_def)
  with nB nz vA t show ?thesis by blast
qed

lemma calculateDcdContact_contact:
  assumes "calculateDcdContact g intersectionList meshA meshAPose meshB meshBPose = Inr (ws, cs)"
    and "c \<in> set cs"
  shows "\<exists>i j normalA normalB a0 a1 a2 b0 b1 b2 d pa pb n.
           getNormal meshA i = Inr normalA \<and> \<not> isZero normalA
           \<and> getNormal meshB j = Inr normalB \<and> \<not> isZero normalB
           \<and> calculateContactTriangleTriangle g a0 a1 a2 b0 b1 b2 normalA normalB = Some (d, pa, pb, n)
           \<and> depth c = \<bar>d\<bar> \<and> time c = Fin 1"
proof -
  from collect_contact[OF assms[unfolded calculateDcdContact_def]] obtain triangleListA triangleListB ws1 cs1
    where r1: "collect (dcdTriangle g meshA meshAPose meshB meshBPose triangleListB) triangleListA = Inr (ws1, cs1)"
      and c1: "c \<in> set cs1"
    by auto
  from collect_contact[OF r1 c1] obtain i ws2 cs2
    where r2: "dcdTriangle g meshA meshAPose meshB meshBPose triangleListB i = Inr (ws2, cs2)"
      and c2: "c \<in> set cs2"
    by auto
  from r2 c2 obtain normalA verticesA
    where nA: "getNormal meshA i = Inr normalA" "\<not> isZero normalA"
      and r3: "collect (dcdTrianglePair g meshA meshAPose meshB meshBPose i normalA verticesA) triangleListB
                = Inr (ws2, cs2)"
    by (auto simp: dcdTriangle_def split: sum.splits if_splits)
  from collect_contact[OF r3 c2] obtain j ws3 cs3
    where r4: "dcdTrianglePair g meshA meshAPose meshB meshBPose i normalA verticesA j = Inr (ws3, cs3)"
      and c3: "c \<in> set cs3"
    by auto
  from dcdTrianglePair_contact[OF r4 c3] nA show ?thesis by blast
qed

lemma abs_double_nonneg: "d \<noteq> NaN \<Longrightarrow> \<bar>d\<bar> \<ge> Fin 0"
  by (cases d) auto

text \<open>
  C6. The first shape's triangle of the example is degenerate (its third vertex lies on
  its first one, so the normal at the first sample time is zero): the continuous
  detection logs the warning, goes on with the swept tests and emits a contact for the
  triangle.
\<close>

theorem degenerate_triangle_contributes_contact:
  "isDegenerate exampleGeometry edgeA0 edgeA1 edgeA0
   \<and> crossingEdges edgeA0 = Inr ([DegenerateTriangleWarning], [crossingContact])"
  using isDegenerate_example crossingEdges_degenerate by (rule conjI)

text \<open>
  The parts of the invariant of a contact that hold. When the triangle-triangle test
  yields numbers as depths, every contact of the discrete detection has a depth of at
  least 0, the absolute value of the depth of the test, and the time 1.0. When the swept
  tests report times in \<open>[0, 1]\<close>, every contact of the continuous detection has a time
  in \<open>[0, 1]\<close>. The depth of a contact of the continuous detection is the projection of
  \<open>T2 - T1\<close> on the normal, as it is.
\<close>

lemma dcd_contact_depth_and_time:
  assumes "depthIsNumber g"
    and "calculateDcdContact g intersectionList meshA meshAPose meshB meshBPose = Inr (ws, cs)"
    and "c \<in> set cs"
  shows "depth c \<ge> Fin 0 \<and> time c = Fin 1 \<and> inUnitInterval (time c)"
proof -
  from calculateDcdContact_contact[OF assms(2,3)] obtain normalA normalB a0 a1 a2 b0 b1 b2 d pa pb n where
    t: "calculateContactTriangleTriangle g a0 a1 a2 b0 b1 b2 normalA normalB = Some (d, pa, pb, n)"
    and dc: "depth c = \<bar>d\<bar>" and tc: "time c = Fin 1"
    by blast
  from assms(1) have "case calculateContactTriangleTriangle g a0 a1 a2 b0 b1 b2 normalA normalB of
          None \<Rightarrow> True | Some (d, pa, pb, n) \<Rightarrow> d \<noteq> NaN"
    unfolding depthIsNumber_def by blast
  with t have "d \<noteq> NaN" by simp
  then have "depth c \<ge> Fin 0" unfolding dc by (rule abs_double_nonneg)
  moreover have "inUnitInterval (time c)" unfolding tc by (simp add: inUnitInterval_def)
  ultimately show ?thesis using tc by simp
qed

lemma ccd_contact_time_and_depth:
  assumes "rootsInUnitInterval g"
    and "calculateCcdContact g shape1AtTime0 pose1AtTime0 shape1AtTime1 pose1AtTime1
           shape2AtTime0 pose2AtTime0 shape2AtTime1 pose2AtTime1 = Inr (ws, cs)"
    and "c \<in> set cs"
  shows "inUnitInterval (time c)
    \<and> (\<exists>impact t1v0 t1v1 t1v2 t2v0 t2v1 t2v2.
          depth c = dot (vsub (pointT2 impact t2v0 t2v1 t2v2) (pointT1 impact t1v0 t1v1 t1v2)) (normal c)
          \<and> normal c = contactNormal impact t1v0 t1v1 t1v2 t2v0 t2v1 t2v2)"
proof -
  from calculateCcdContact_contact[OF assms(2,3)] obtain triangleId t1v0 t1v1 t1v2 t2v0 t2v1 t2v2 where
    c: "c = makeCcdContact pose2AtTime1 triangleId
                   (snd (findImpact g t1v0 t1v1 t1v2 t2v0 t2v1 t2v2)) t1v0 t1v1 t1v2 t2v0 t2v1 t2v2"
    and ne: "\<not> deq (earliestTimeOfImpact (snd (findImpact g t1v0 t1v1 t1v2 t2v0 t2v1 t2v2))) (Fin DBL_MAX)"
    by blast
  have "inUnitInterval (time c)"
    unfolding c makeCcdContact_fields(1) using assms(1) ne by (rule findImpact_time_unit)
  moreover have "depth c = dot (vsub (pointT2 (snd (findImpact g t1v0 t1v1 t1v2 t2v0 t2v1 t2v2)) t2v0 t2v1 t2v2)
        (pointT1 (snd (findImpact g t1v0 t1v1 t1v2 t2v0 t2v1 t2v2)) t1v0 t1v1 t1v2)) (normal c)"
    unfolding c by (simp add: makeCcdContact_def Let_def)
  moreover have "normal c = contactNormal (snd (findImpact g t1v0 t1v1 t1v2 t2v0 t2v1 t2v2))
      t1v0 t1v1 t1v2 t2v0 t2v1 t2v2"
    unfolding c by (simp add: makeCcdContact_def Let_def)
  ultimately show ?thesis by blast
qed

text \<open>
  C7. The continuous detection on the two triangles whose edges cross emits one contact.
  Its time, \<open>1/2\<close>, lies in \<open>[0, 1]\<close>, but its depth is \<open>-1\<close>, below 0: the point \<open>T1\<close> of
  the moving triangle at the second sample time, \<open>(0, 0, -1)\<close>, lies below the point
  \<open>T2\<close> of the hanging one, the origin, the normal is the direction from \<open>T2\<close> to \<open>T1\<close>,
  and the depth is the projection of \<open>T2 - T1\<close> on it. The discrete detection on the
  pierced triangle takes the absolute value of the depth of its test, and its contact has
  a depth of at least 0 and the time 1.0.
\<close>

theorem ccd_contact_with_negative_depth:
  "crossingEdges apexA = Inr ([], [crossingContact])
   \<and> inUnitInterval (time crossingContact)
   \<and> pointT1 (snd (findImpact exampleGeometry edgeA0 edgeA1 apexA edgeB0 edgeB1 apexB)) edgeA0 edgeA1 apexA
       = vec 0 0 (- 1)
   \<and> pointT2 (snd (findImpact exampleGeometry edgeA0 edgeA1 apexA edgeB0 edgeB1 apexB)) edgeB0 edgeB1 apexB
       = vec 0 0 0
   \<and> normal crossingContact = vec 0 0 (- 1)
   \<and> depth crossingContact = dot (vsub (vec 0 0 0) (vec 0 0 (- 1))) (vec 0 0 (- 1))
   \<and> depth crossingContact = Fin (- 1)
   \<and> depth crossingContact < Fin 0
   \<and> \<not> depth crossingContact \<ge> Fin 0
   \<and> piercedTriangle = Inr ([], [piercedContact])
   \<and> depth piercedContact = \<bar>Fin (1 / 128)\<bar>
   \<and> depth piercedContact \<ge> Fin 0
   \<and> time piercedContact = Fin 1"
proof -
  have "pointT1 (snd (findImpact exampleGeometry edgeA0 edgeA1 apexA edgeB0 edgeB1 apexB)) edgeA0 edgeA1 apexA
       = vec 0 0 (- 1)"
    and "pointT2 (snd (findImpact exampleGeometry edgeA0 edgeA1 apexA edgeB0 edgeB1 apexB)) edgeB0 edgeB1 apexB
       = vec 0 0 0"
    and "depth crossingContact = dot (vsub (vec 0 0 0) (vec 0 0 (- 1))) (vec 0 0 (- 1))"
    by (simp_all add: mesh_defs cong: let_weak_cong)
  moreover have "inUnitInterval (time crossingContact)" "normal crossingContact = vec 0 0 (- 1)"
    "depth crossingContact = Fin (- 1)" "depth crossingContact < Fin 0" "\<not> depth crossingContact \<ge> Fin 0"
    by (simp_all add: crossingContact_def inUnitInterval_def)
  moreover have "depth piercedContact = \<bar>Fin (1 / 128)\<bar>" "depth piercedContact \<ge> Fin 0"
    "time piercedContact = Fin 1"
    by (simp_all add: piercedContact_def)
  ultimately show ?thesis
    using crossingEdges_apex piercedTriangle_contact by (intro conjI)
qed





text \<open>
  C9. In every contact of the continuous detection, the rigid local positions of the two
  locations are the same: the point \<^verbatim>\<open>T1\<close> of the first triangle at the second sample
  time, transformed by the inverse of the pose of the second shape at that time.
\<close>

theorem ccd_locations_share_point_of_first_triangle:
  assumes "calculateCcdContact g shape1AtTime0 pose1AtTime0 shape1AtTime1 pose1AtTime1
       shape2AtTime0 pose2AtTime0 shape2AtTime1 pose2AtTime1 = Inr (ws, cs)"
    and "c \<in> set cs"
  shows "\<exists>triangle1Id triangle1T0 triangle1T1 t1v0 t1v1 t1v2 alpha beta.
           triangle1Id < getNumTriangles shape1AtTime0
           \<and> getTriangle shape1AtTime0 triangle1Id = Inr triangle1T0
           \<and> getTriangle shape1AtTime1 triangle1Id = Inr triangle1T1
           \<and> triangleMotion shape2AtTime0 shape2AtTime1 triangle1T0 triangle1T1 = Inr (t1v0, t1v1, t1v2)
           \<and> rigidLocalPosition (fst (penetrationPoints c))
               = Some (transformPoint (inverseTransform pose2AtTime1) (pointAtTime1 t1v0 t1v1 t1v2 alpha beta))
           \<and> rigidLocalPosition (snd (penetrationPoints c))
               = Some (transformPoint (inverseTransform pose2AtTime1) (pointAtTime1 t1v0 t1v1 t1v2 alpha beta))"
proof -
  from calculateCcdContact_contact[OF assms] obtain triangle1Id triangleId triangle1T0 triangle1T1
      t1v0 t1v1 t1v2 t2v0 t2v1 t2v2 where
    f1: "triangle1Id < getNumTriangles shape1AtTime0"
    and f2: "getTriangle shape1AtTime0 triangle1Id = Inr triangle1T0"
    and f3: "getTriangle shape1AtTime1 triangle1Id = Inr triangle1T1"
    and f4: "triangleMotion shape2AtTime0 shape2AtTime1 triangle1T0 triangle1T1 = Inr (t1v0, t1v1, t1v2)"
    and f5: "c = makeCcdContact pose2AtTime1 triangleId
           (snd (findImpact g t1v0 t1v1 t1v2 t2v0 t2v1 t2v2)) t1v0 t1v1 t1v2 t2v0 t2v1 t2v2"
    by blast
  let ?cand = "snd (findImpact g t1v0 t1v1 t1v2 t2v0 t2v1 t2v2)"
  have p1: "rigidLocalPosition (fst (penetrationPoints c))
      = Some (transformPoint (inverseTransform pose2AtTime1)
          (pointAtTime1 t1v0 t1v1 t1v2 (triangle2Alpha ?cand) (triangle2Beta ?cand)))"
    unfolding f5 makeCcdContact_rigidLocalPosition pointT1_def ..
  have p2: "rigidLocalPosition (snd (penetrationPoints c))
      = Some (transformPoint (inverseTransform pose2AtTime1)
          (pointAtTime1 t1v0 t1v1 t1v2 (triangle2Alpha ?cand) (triangle2Beta ?cand)))"
    unfolding f5 makeCcdContact_rigidLocalPosition pointT1_def ..
  from f1 f2 f3 f4 p1 p2 show ?thesis by blast
qed

theorem ccd_locations_share_point_of_first_triangle_witness:
  "crossingEdges apexA = Inr ([], [crossingContact])
   \<and> crossingContact \<in> set [crossingContact]
   \<and> pointAtTime1 edgeA0 edgeA1 apexA (Fin (1 / 2)) (Fin 0) = vec 0 0 (- 1)
   \<and> rigidLocalPosition (fst (penetrationPoints crossingContact))
       = Some (transformPoint (inverseTransform identityTransform) (vec 0 0 (- 1)))
   \<and> rigidLocalPosition (snd (penetrationPoints crossingContact))
       = Some (transformPoint (inverseTransform identityTransform) (vec 0 0 (- 1)))"
proof -
  have h: "calculateCcdContact exampleGeometry
           (movingShapeAt fst apexA) identityTransform (movingShapeAt snd apexA) identityTransform
           (hangingShapeAt fst apexA) identityTransform (hangingShapeAt snd apexA) identityTransform
         = Inr ([], [crossingContact])"
    using crossingEdges_apex by (simp add: crossingEdges_def)
  have m: "crossingContact \<in> set [crossingContact]" by simp
  from ccd_locations_share_point_of_first_triangle [OF h m] crossingEdges_apex
  show ?thesis
    by (simp add: crossingContact_def triangleLocation_def pointAtTime1_def transformPoint_def
        inverseTransform_def identityTransform_def Vector3d_Zero_def vec_defs double_defs
        cong: let_weak_cong)
qed

lemma ccdTriangle1_verticesId:
  assumes "map verticesId (triangles a0) = map verticesId (triangles b0)"
    and "map verticesId (triangles a1) = map verticesId (triangles b1)"
  shows "ccdTriangle1 g a0 a1 shape2AtTime0 shape2AtTime1 pose2AtTime1 triangle1Id
       = ccdTriangle1 g b0 b1 shape2AtTime0 shape2AtTime1 pose2AtTime1 triangle1Id"
proof -
  have l0: "length (triangles a0) = length (triangles b0)"
    using assms(1) by (rule map_eq_imp_length_eq)
  have l1: "length (triangles a1) = length (triangles b1)"
    using assms(2) by (rule map_eq_imp_length_eq)
  have v0: "verticesId (triangles a0 ! triangle1Id) = verticesId (triangles b0 ! triangle1Id)"
    if "triangle1Id < length (triangles a0)"
    using that assms(1) by (metis nth_map l0)
  have v1: "verticesId (triangles a1 ! triangle1Id) = verticesId (triangles b1 ! triangle1Id)"
    if "triangle1Id < length (triangles a1)"
    using that assms(2) by (metis nth_map l1)
  show ?thesis
    using l0 l1 v0 v1
    by (simp add: ccdTriangle1_def getTriangle_def readAt_def
        triangleMotion_verticesId[of "triangles a0 ! triangle1Id" "triangles b0 ! triangle1Id"
          "triangles a1 ! triangle1Id" "triangles b1 ! triangle1Id"])
qed

text \<open>
  C10. Two calls of the continuous detection that agree on everything but the first
  shape, whose triangles have the same vertex indices at both sample times, return the
  same result: the positions of the vertices of the first shape do not matter.
\<close>

theorem calculateCcdContact_ignores_first_shape_vertices:
  assumes "map verticesId (triangles shape1AtTime0) = map verticesId (triangles otherShape1AtTime0)"
    and "map verticesId (triangles shape1AtTime1) = map verticesId (triangles otherShape1AtTime1)"
  shows "calculateCcdContact g shape1AtTime0 pose1AtTime0 shape1AtTime1 pose1AtTime1
           shape2AtTime0 pose2AtTime0 shape2AtTime1 pose2AtTime1
       = calculateCcdContact g otherShape1AtTime0 pose1AtTime0 otherShape1AtTime1 pose1AtTime1
           shape2AtTime0 pose2AtTime0 shape2AtTime1 pose2AtTime1"
proof -
  have l0: "getNumTriangles shape1AtTime0 = getNumTriangles otherShape1AtTime0"
    unfolding getNumTriangles_def using assms(1) by (rule map_eq_imp_length_eq)
  have l1: "getNumTriangles shape1AtTime1 = getNumTriangles otherShape1AtTime1"
    unfolding getNumTriangles_def using assms(2) by (rule map_eq_imp_length_eq)
  have "ccdTriangle1 g shape1AtTime0 shape1AtTime1 shape2AtTime0 shape2AtTime1 pose2AtTime1
      = ccdTriangle1 g otherShape1AtTime0 otherShape1AtTime1 shape2AtTime0 shape2AtTime1 pose2AtTime1"
    using ccdTriangle1_verticesId[OF assms] by blast
  then show ?thesis
    by (simp add: calculateCcdContact_def l0 l1)
qed

theorem calculateCcdContact_ignores_first_shape_vertices_witness:
  "map verticesId (triangles (movingShapeAt fst apexA))
     = map verticesId (triangles (meshOf [vec 7 7 7, vec 8 8 8, vec 9 9 9] [(0, 1, 2)] []))
   \<and> map verticesId (triangles (movingShapeAt snd apexA))
     = map verticesId (triangles (meshOf [vec 5 5 5] [(0, 1, 2)] []))
   \<and> vertexPositions (movingShapeAt fst apexA)
     \<noteq> vertexPositions (meshOf [vec 7 7 7, vec 8 8 8, vec 9 9 9] [(0, 1, 2)] [])
   \<and> calculateCcdContact exampleGeometry
        (meshOf [vec 7 7 7, vec 8 8 8, vec 9 9 9] [(0, 1, 2)] []) identityTransform
        (meshOf [vec 5 5 5] [(0, 1, 2)] []) identityTransform
        (hangingShapeAt fst apexA) identityTransform (hangingShapeAt snd apexA) identityTransform
      = Inr ([], [crossingContact])"
proof -
  have h0: "map verticesId (triangles (movingShapeAt fst apexA))
     = map verticesId (triangles (meshOf [vec 7 7 7, vec 8 8 8, vec 9 9 9] [(0, 1, 2)] []))"
    by (simp add: movingShapeAt_def meshOf_def)
  have h1: "map verticesId (triangles (movingShapeAt snd apexA))
     = map verticesId (triangles (meshOf [vec 5 5 5] [(0, 1, 2)] []))"
    by (simp add: movingShapeAt_def meshOf_def)
  have ne: "vertexPositions (movingShapeAt fst apexA)
     \<noteq> vertexPositions (meshOf [vec 7 7 7, vec 8 8 8, vec 9 9 9] [(0, 1, 2)] [])"
    by (simp add: movingShapeAt_def meshOf_def vec_defs)
  from calculateCcdContact_ignores_first_shape_vertices [OF h0 h1, of exampleGeometry
      identityTransform identityTransform "hangingShapeAt fst apexA" identityTransform
      "hangingShapeAt snd apexA" identityTransform]
  have "calculateCcdContact exampleGeometry
        (meshOf [vec 7 7 7, vec 8 8 8, vec 9 9 9] [(0, 1, 2)] []) identityTransform
        (meshOf [vec 5 5 5] [(0, 1, 2)] []) identityTransform
        (hangingShapeAt fst apexA) identityTransform (hangingShapeAt snd apexA) identityTransform
      = Inr ([], [crossingContact])"
    using crossingEdges_apex by (simp add: crossingEdges_def)
  with h0 h1 ne show ?thesis by blast
qed

end
